theory Spec2Isabelle
  imports Main "HOL-Library.Word"
begin

section \<open>CreateHybridCollectionRequest: the embedded program\<close>

text \<open>
  The development embeds \<^verbatim>\<open>CreateHybridCollectionRequest.cpp\<close>: the constructor, the
  factory \<^verbatim>\<open>Create\<close> and \<^verbatim>\<open>OnExecute\<close>. A C++ member \<^verbatim>\<open>name_\<close> is written \<open>name'\<close>
  (an Isabelle identifier cannot end in an underscore); local variables keep their names.
\<close>

subsection \<open>JSON documents (\<^verbatim>\<open>milvus::json\<close>, that is \<^verbatim>\<open>nlohmann::json\<close>)\<close>

text \<open>
  A document is one of the library's value kinds. Integers are stored in 64 bits, signed
  (\<open>JInt\<close>) or unsigned (\<open>JUInt\<close>). The payload of a floating-point number stays abstract:
  no operation of this file looks inside one.
\<close>

typedecl double

datatype json =
    JNull
  | JBool bool
  | JInt "64 word"
  | JUInt "64 word"
  | JFloat double
  | JString string
  | JArray "json list"
  | JObject "(string \<times> json) list"

text \<open>
  Everything thrown inside the \<^verbatim>\<open>try\<close> block derives from \<^verbatim>\<open>std::exception\<close>:
  \<^verbatim>\<open>std::out_of_range\<close> from \<^verbatim>\<open>unordered_map::at\<close> and from \<^verbatim>\<open>map::at\<close>, the library's
  \<^verbatim>\<open>parse_error\<close> (with the text that did not parse) and its \<^verbatim>\<open>type_error\<close> (with the
  value that had the wrong kind).
\<close>

datatype exception =
    out_of_range_unordered_map_at
  | out_of_range_map_at
  | parse_error string
  | type_error json

text \<open>\<^verbatim>\<open>j.contains(key)\<close>: true exactly for an object that has the key.\<close>

fun contains :: "json \<Rightarrow> string \<Rightarrow> bool" where
  "contains (JObject members) key = (map_of members key \<noteq> None)"
| "contains _ key = False"

text \<open>
  \<^verbatim>\<open>j[key]\<close> on a non-const document: the member of an object (a fresh null member when
  the key is new), null for a null document (which becomes an object), and a
  \<^verbatim>\<open>type_error\<close> for every other kind.
\<close>

fun index_json :: "json \<Rightarrow> string \<Rightarrow> exception + json" where
  "index_json (JObject members) key =
     (case map_of members key of Some v \<Rightarrow> Inr v | None \<Rightarrow> Inr JNull)"
| "index_json JNull key = Inr JNull"
| "index_json j key = Inl (type_error j)"

text \<open>Conversion to \<^verbatim>\<open>std::string\<close>: only a string converts.\<close>

fun get_string :: "json \<Rightarrow> exception + string" where
  "get_string (JString s) = Inr s"
| "get_string j = Inl (type_error j)"

text \<open>
  \<^verbatim>\<open>get<uint16_t>()\<close>: a number is cast with \<^verbatim>\<open>static_cast\<close> (an integer keeps its low
  16 bits), a boolean becomes 0 or 1, anything else throws. \<^verbatim>\<open>get<int64_t>()\<close>: a number
  is cast (an unsigned integer keeps its bit pattern), anything else, a boolean too,
  throws. The casts from \<^verbatim>\<open>double\<close> are parameters.
\<close>

fun get_uint16_t :: "(double \<Rightarrow> 16 word) \<Rightarrow> json \<Rightarrow> exception + 16 word" where
  "get_uint16_t cast (JUInt n) = Inr (ucast n)"
| "get_uint16_t cast (JInt n) = Inr (ucast n)"
| "get_uint16_t cast (JFloat d) = Inr (cast d)"
| "get_uint16_t cast (JBool b) = Inr (if b then 1 else 0)"
| "get_uint16_t cast j = Inl (type_error j)"

fun get_int64_t :: "(double \<Rightarrow> 64 word) \<Rightarrow> json \<Rightarrow> exception + 64 word" where
  "get_int64_t cast (JUInt n) = Inr n"
| "get_int64_t cast (JInt n) = Inr n"
| "get_int64_t cast (JFloat d) = Inr (cast d)"
| "get_int64_t cast j = Inl (type_error j)"

subsection \<open>Status, schemas and the request object\<close>

text \<open>
  Modelled from the spec: the error codes and the class \<^verbatim>\<open>Status\<close> are declared in headers
  that are not part of this file. The codes are the ones the file names (success,
  unexpected error, invalid collection name, already exists: the outcomes of the spec's
  result table), with one constructor for every other code a collaborator may return. A
  status has a code and a message, and is ok exactly when its code is the success code.
\<close>

datatype ErrorCode =
    SERVER_SUCCESS
  | SERVER_UNEXPECTED_ERROR
  | SERVER_INVALID_COLLECTION_NAME
  | DB_ALREADY_EXIST
  | OTHER_ERROR nat

record Status =
  code :: ErrorCode
  message :: string

definition Status :: "ErrorCode \<Rightarrow> string \<Rightarrow> Status" where
  "Status c m = \<lparr>code = c, message = m\<rparr>"

definition OK :: Status where
  "OK = Status SERVER_SUCCESS []"

definition ok :: "Status \<Rightarrow> bool" where
  "ok s = (code s = SERVER_SUCCESS)"

text \<open>
  Modelled from the spec: the enumeration \<^verbatim>\<open>engine::meta::hybrid::DataType\<close> is declared
  outside this file. It has the two vector types the file tests for and, under one
  constructor, the remaining (scalar) enumerators.
\<close>

datatype DataType = FLOAT_VECTOR | BINARY_VECTOR | OTHER_TYPE nat

text \<open>
  Modelled from the spec: the structs \<^verbatim>\<open>FieldSchema\<close>, \<^verbatim>\<open>FieldsSchema\<close> and
  \<^verbatim>\<open>CollectionSchema\<close> are declared outside this file. Their members here are the ones
  this file assigns, with the types the spec's data model gives them: the dimension is an
  unsigned 16-bit integer, the segment size a 64-bit one, the codes are 32-bit integers.
  What a default-constructed struct holds is a parameter of the environment below.
\<close>

record FieldSchema =
  collection_id' :: string
  field_name' :: string
  field_type' :: "32 word"
  field_params' :: string
  index_name' :: string
  index_param' :: string

record FieldsSchema =
  fields_schema' :: "FieldSchema list"

record CollectionSchema =
  collection_id' :: string
  dimension' :: "16 word"
  index_file_size' :: "64 word"
  engine_type' :: "32 word"
  metric_type' :: "32 word"

text \<open>
  The members of the request object. \<^verbatim>\<open>field_types_\<close> is an \<^verbatim>\<open>unordered_map\<close>; the
  list holds its entries in the order the \<^verbatim>\<open>for\<close> loop visits them. The two parameter
  maps are only looked up by key.
\<close>

record CreateHybridCollectionRequest =
  collection_name' :: string
  field_types' :: "(string \<times> DataType) list"
  field_index_params' :: "string \<rightharpoonup> json"
  field_params' :: "string \<rightharpoonup> string"
  extra_params' :: json

text \<open>
  What the file uses and does not define: the name validator, the storage engine's
  create operation, the fault-injection switch of \<^verbatim>\<open>fiu_do_on\<close> (false everywhere in a
  build without fault injection), the JSON parser (\<open>None\<close> when it throws) and serialiser,
  the casts from \<^verbatim>\<open>double\<close>, the two string-to-code tables, the \<^verbatim>\<open>what()\<close> text of an
  exception, the default-constructed schemas and the integer value of a \<^verbatim>\<open>DataType\<close>.
\<close>

record env =
  ValidateCollectionName :: "string \<Rightarrow> Status"
  CreateHybridCollection :: "CollectionSchema \<Rightarrow> FieldsSchema \<Rightarrow> Status"
  fiu_fail :: "string \<Rightarrow> bool"
  json_parse :: "string \<Rightarrow> json option"
  json_dump :: "json \<Rightarrow> string"
  double_to_uint16_t :: "double \<Rightarrow> 16 word"
  double_to_int64_t :: "double \<Rightarrow> 64 word"
  s_map_metric_type :: "string \<rightharpoonup> 32 word"
  s_map_engine_type :: "string \<rightharpoonup> 32 word"
  what :: "exception \<Rightarrow> string"
  CollectionSchema_default :: CollectionSchema
  FieldSchema_default :: FieldSchema
  DataType_int32_t :: "DataType \<Rightarrow> 32 word"

text \<open>
  The constructor. Its initialiser list copies the collection name and the three field
  maps; \<^verbatim>\<open>extra_params_\<close> is not in the list, so the member is default-constructed: a
  null document.
\<close>

definition new_CreateHybridCollectionRequest ::
  "string \<Rightarrow> (string \<times> DataType) list \<Rightarrow> (string \<rightharpoonup> json) \<Rightarrow> (string \<rightharpoonup> string) \<Rightarrow> json
   \<Rightarrow> CreateHybridCollectionRequest" where
  "new_CreateHybridCollectionRequest collection_name field_types field_index_params
       field_params extra_params =
     \<lparr>collection_name' = collection_name,
      field_types' = field_types,
      field_index_params' = field_index_params,
      field_params' = field_params,
      extra_params' = JNull\<rparr>"

definition Create ::
  "string \<Rightarrow> (string \<times> DataType) list \<Rightarrow> (string \<rightharpoonup> json) \<Rightarrow> (string \<rightharpoonup> string) \<Rightarrow> json
   \<Rightarrow> CreateHybridCollectionRequest" where
  "Create collection_name field_types field_index_params field_params extra_params =
     new_CreateHybridCollectionRequest collection_name field_types field_index_params
       field_params extra_params"

subsection \<open>\<^verbatim>\<open>OnExecute\<close>, step 2: the loop over the field types\<close>

text \<open>
  A statement that may throw is followed by the rest of the block with \<open>and_then\<close>: an
  exception skips the rest and reaches the \<^verbatim>\<open>catch\<close>.
\<close>

definition and_then :: "exception + 'a \<Rightarrow> ('a \<Rightarrow> exception + 'b) \<Rightarrow> exception + 'b" where
  "and_then r rest = (case r of Inl ex \<Rightarrow> Inl ex | Inr v \<Rightarrow> rest v)"

text \<open>
  \<^verbatim>\<open>m.at(key)\<close> on the \<^verbatim>\<open>unordered_map\<close> members and on the two code tables. The
  tables are declared outside this file; they are taken to be ordered maps, which only
  the text of \<^verbatim>\<open>what()\<close> could tell from unordered ones.
\<close>

definition unordered_map_at :: "('k \<rightharpoonup> 'v) \<Rightarrow> 'k \<Rightarrow> exception + 'v" where
  "unordered_map_at m key =
     (case m key of None \<Rightarrow> Inl out_of_range_unordered_map_at | Some v \<Rightarrow> Inr v)"

definition map_at :: "('k \<rightharpoonup> 'v) \<Rightarrow> 'k \<Rightarrow> exception + 'v" where
  "map_at m key = (case m key of None \<Rightarrow> Inl out_of_range_map_at | Some v \<Rightarrow> Inr v)"

text \<open>\<^verbatim>\<open>json::parse(text)\<close>.\<close>

definition parse :: "env \<Rightarrow> string \<Rightarrow> exception + json" where
  "parse e text = (case json_parse e text of None \<Rightarrow> Inl (parse_error text) | Some j \<Rightarrow> Inr j)"

text \<open>The loop's test for a vector-typed field (source lines 91 and 92), by name.\<close>

definition is_vector :: "DataType \<Rightarrow> bool" where
  "is_vector t = (t = FLOAT_VECTOR \<or> t = BINARY_VECTOR)"

text \<open>
  The body's \<^verbatim>\<open>if\<close> on the index document's \<^verbatim>\<open>name\<close> key (source lines 82 to 84).
\<close>

definition set_index_name :: "json \<Rightarrow> FieldSchema \<Rightarrow> exception + FieldSchema" where
  "set_index_name index_params schema =
     (if contains index_params ''name''
      then and_then (index_json index_params ''name'') (\<lambda>v.
           and_then (get_string v) (\<lambda>s.
           Inr (schema\<lparr>index_name' := s\<rparr>)))
      else Inr schema)"

text \<open>
  The body's \<^verbatim>\<open>if\<close> on a vector-typed field (source lines 91 to 97), which assigns
  \<^verbatim>\<open>vector_param\<close> and, under its own \<^verbatim>\<open>if\<close>, \<^verbatim>\<open>dimension\<close>.
\<close>

definition set_vector_param ::
  "env \<Rightarrow> DataType \<Rightarrow> string \<Rightarrow> 16 word \<times> json \<Rightarrow> exception + 16 word \<times> json" where
  "set_vector_param e data_type field_param vars =
     (let dimension = fst vars; vector_param = snd vars in
      if data_type = FLOAT_VECTOR \<or> data_type = BINARY_VECTOR
      then and_then (parse e field_param) (\<lambda>vector_param.
           if contains vector_param ''dimension''
           then and_then (index_json vector_param ''dimension'') (\<lambda>v.
                and_then (get_uint16_t (double_to_uint16_t e) v) (\<lambda>dimension.
                Inr (dimension, vector_param)))
           else Inr (dimension, vector_param))
      else Inr (dimension, vector_param))"

text \<open>
  One iteration. The loop's variables are \<^verbatim>\<open>fields_schema\<close>, the running
  \<^verbatim>\<open>dimension\<close> and \<^verbatim>\<open>vector_param\<close>.
\<close>

definition loop_body ::
  "env \<Rightarrow> CreateHybridCollectionRequest \<Rightarrow> string \<times> DataType
   \<Rightarrow> FieldsSchema \<times> 16 word \<times> json
   \<Rightarrow> exception + FieldsSchema \<times> 16 word \<times> json" where
  "loop_body e req field_type vars =
     (let fields_schema = fst vars; field_name = fst field_type in
      and_then (unordered_map_at (field_index_params' req) field_name) (\<lambda>index_params.
      let schema = (FieldSchema_default e)
            \<lparr>FieldSchema.collection_id' := collection_name' req,
             field_name' := field_name,
             field_type' := DataType_int32_t e (snd field_type)\<rparr> in
      and_then (set_index_name index_params schema) (\<lambda>schema.
      let schema = schema\<lparr>index_param' := json_dump e index_params\<rparr> in
      and_then (unordered_map_at (field_params' req) field_name) (\<lambda>field_param.
      let schema = schema\<lparr>FieldSchema.field_params' := field_param\<rparr>;
          fields_schema = fields_schema
            \<lparr>fields_schema' := fields_schema' fields_schema @ [schema]\<rparr> in
      and_then (set_vector_param e (snd field_type) field_param (snd vars)) (\<lambda>vars'.
      Inr (fields_schema, vars'))))))"

fun loop ::
  "env \<Rightarrow> CreateHybridCollectionRequest \<Rightarrow> (string \<times> DataType) list
   \<Rightarrow> FieldsSchema \<times> 16 word \<times> json
   \<Rightarrow> exception + FieldsSchema \<times> 16 word \<times> json" where
  "loop e req [] vars = Inr vars"
| "loop e req (field_type # rest) vars =
     and_then (loop_body e req field_type vars) (loop e req rest)"

text \<open>
  The loop from its initial variables: an empty \<^verbatim>\<open>fields_schema\<close>, \<^verbatim>\<open>dimension = 0\<close>
  and a default-constructed (null) \<^verbatim>\<open>vector_param\<close>.
\<close>

definition assemble ::
  "env \<Rightarrow> CreateHybridCollectionRequest \<Rightarrow> exception + FieldsSchema \<times> 16 word \<times> json" where
  "assemble e req = loop e req (field_types' req) (\<lparr>fields_schema' = []\<rparr>, 0, JNull)"

text \<open>
  The statements between the loop and the engine call fill \<^verbatim>\<open>collection_info\<close>. Each of
  the three \<^verbatim>\<open>if\<close> statements (source lines 102, 106 and 111) is a function of its own.
\<close>

definition set_index_file_size ::
  "env \<Rightarrow> CreateHybridCollectionRequest \<Rightarrow> CollectionSchema \<Rightarrow> exception + CollectionSchema" where
  "set_index_file_size e req collection_info =
     (if contains (extra_params' req) ''segment_size''
      then and_then (index_json (extra_params' req) ''segment_size'') (\<lambda>v.
           and_then (get_int64_t (double_to_int64_t e) v) (\<lambda>n.
           Inr (collection_info\<lparr>index_file_size' := n\<rparr>)))
      else Inr collection_info)"

definition set_metric_type :: "env \<Rightarrow> json \<Rightarrow> CollectionSchema \<Rightarrow> exception + CollectionSchema" where
  "set_metric_type e vector_param collection_info =
     (if contains vector_param ''metric_type''
      then and_then (index_json vector_param ''metric_type'') (\<lambda>v.
           and_then (get_string v) (\<lambda>s.
           and_then (map_at (s_map_metric_type e) s) (\<lambda>metric_type.
           Inr (collection_info\<lparr>metric_type' := metric_type\<rparr>))))
      else Inr collection_info)"

definition set_engine_type :: "env \<Rightarrow> json \<Rightarrow> CollectionSchema \<Rightarrow> exception + CollectionSchema" where
  "set_engine_type e vector_param collection_info =
     (if contains vector_param ''index_type''
      then and_then (index_json vector_param ''index_type'') (\<lambda>v.
           and_then (get_string v) (\<lambda>s.
           and_then (map_at (s_map_engine_type e) s) (\<lambda>engine_type.
           Inr (collection_info\<lparr>engine_type' := engine_type\<rparr>))))
      else Inr collection_info)"

definition collection_info_of ::
  "env \<Rightarrow> CreateHybridCollectionRequest \<Rightarrow> 16 word \<Rightarrow> json \<Rightarrow> exception + CollectionSchema" where
  "collection_info_of e req dimension vector_param =
     (let collection_info = (CollectionSchema_default e)
            \<lparr>CollectionSchema.collection_id' := collection_name' req,
             dimension' := dimension\<rparr> in
      and_then (set_index_file_size e req collection_info) (\<lambda>collection_info.
      and_then (set_metric_type e vector_param collection_info) (\<lambda>collection_info.
      set_engine_type e vector_param collection_info)))"

definition step2 ::
  "env \<Rightarrow> CreateHybridCollectionRequest \<Rightarrow> exception + CollectionSchema \<times> FieldsSchema" where
  "step2 e req =
     and_then (assemble e req) (\<lambda>vars.
     and_then (collection_info_of e req (fst (snd vars)) (snd (snd vars))) (\<lambda>collection_info.
     Inr (collection_info, fst vars)))"

subsection \<open>\<^verbatim>\<open>OnExecute\<close>\<close>

text \<open>
  The result is the returned status together with the calls made to the storage engine,
  each with its two arguments. The time recorder only logs and is left out.
\<close>

definition OnExecute ::
  "env \<Rightarrow> CreateHybridCollectionRequest \<Rightarrow> Status \<times> (CollectionSchema \<times> FieldsSchema) list" where
  "OnExecute e req =
     (let status = ValidateCollectionName e (collection_name' req);
          status = (if fiu_fail e ''CreateHybridCollectionRequest.OnExecute.invalid_collection_name''
                    then Status SERVER_UNEXPECTED_ERROR [] else status) in
      if \<not> ok status then (status, [])
      else
        case step2 e req of
          Inl ex \<Rightarrow> (Status SERVER_UNEXPECTED_ERROR (what e ex), [])
        | Inr (collection_info, fields_schema) \<Rightarrow>
            let status = CreateHybridCollection e collection_info fields_schema;
                status = (if fiu_fail e ''CreateHybridCollectionRequest.OnExecute.invalid_db_execute''
                          then Status SERVER_UNEXPECTED_ERROR [] else status) in
            (if \<not> ok status
             then (if code status = DB_ALREADY_EXIST
                   then Status SERVER_INVALID_COLLECTION_NAME (message status)
                   else status)
             else OK,
             [(collection_info, fields_schema)]))"

subsection \<open>Notions used in the statements\<close>

text \<open>
  The value under \<^verbatim>\<open>name\<close> in an index document, when the key is there, converts to a
  string; the value under \<^verbatim>\<open>dimension\<close> in a parsed parameter document, when the key is
  there, converts to \<^verbatim>\<open>uint16_t\<close>.
\<close>

definition name_is_string :: "json \<Rightarrow> bool" where
  "name_is_string index_params =
     (contains index_params ''name'' \<longrightarrow>
        (case and_then (index_json index_params ''name'') get_string of
           Inr s \<Rightarrow> True | Inl ex \<Rightarrow> False))"

definition dimension_converts :: "env \<Rightarrow> json \<Rightarrow> bool" where
  "dimension_converts e vector_param =
     (contains vector_param ''dimension'' \<longrightarrow>
        (case and_then (index_json vector_param ''dimension'')
                (get_uint16_t (double_to_uint16_t e)) of
           Inr d \<Rightarrow> True | Inl ex \<Rightarrow> False))"

text \<open>
  A field of the type map is well formed when both parameter maps have its name, its
  index document's \<^verbatim>\<open>name\<close> is a string and, for a vector-typed field, its parameter
  document parses and the document's \<^verbatim>\<open>dimension\<close> converts.
\<close>

definition field_well_formed ::
  "env \<Rightarrow> CreateHybridCollectionRequest \<Rightarrow> string \<times> DataType \<Rightarrow> bool" where
  "field_well_formed e req field_type =
     (case field_index_params' req (fst field_type) of
        None \<Rightarrow> False
      | Some index_params \<Rightarrow>
          name_is_string index_params \<and>
          (case field_params' req (fst field_type) of
             None \<Rightarrow> False
           | Some field_param \<Rightarrow>
               is_vector (snd field_type) \<longrightarrow>
                 (case json_parse e field_param of
                    None \<Rightarrow> False
                  | Some vector_param \<Rightarrow> dimension_converts e vector_param)))"

text \<open>
  \<open>built e req field_type schema\<close>: the record \<open>schema\<close> is the FieldSchema of the field
  \<open>field_type\<close>: it has the field's name, the integer value of its data type, the
  serialised index document and, when that document has a \<^verbatim>\<open>name\<close>, that string as index
  name.
\<close>

definition built ::
  "env \<Rightarrow> CreateHybridCollectionRequest \<Rightarrow> string \<times> DataType \<Rightarrow> FieldSchema \<Rightarrow> bool" where
  "built e req field_type schema =
     (field_name' schema = fst field_type \<and>
      field_type' schema = DataType_int32_t e (snd field_type) \<and>
      (case field_index_params' req (fst field_type) of
         None \<Rightarrow> False
       | Some index_params \<Rightarrow>
           index_param' schema = json_dump e index_params \<and>
           (contains index_params ''name'' \<longrightarrow>
              index_json index_params ''name'' = Inr (JString (index_name' schema)))))"

text \<open>
  The vector-typed field the loop visits last: the one whose parameter document is left in
  \<^verbatim>\<open>vector_param\<close> when the loop ends.
\<close>

fun last_vector :: "(string \<times> DataType) list \<Rightarrow> (string \<times> DataType) option" where
  "last_vector [] = None"
| "last_vector (field_type # rest) =
     (case last_vector rest of
        Some later \<Rightarrow> Some later
      | None \<Rightarrow> if is_vector (snd field_type) then Some field_type else None)"



text \<open>
  The parsed parameter document of the vector field visited last, when there is such a
  field, both maps have it and its document parses.
\<close>

definition last_vector_param :: "env \<Rightarrow> CreateHybridCollectionRequest \<Rightarrow> json option" where
  "last_vector_param e req =
     (case last_vector (field_types' req) of
        None \<Rightarrow> None
      | Some field_type \<Rightarrow>
          (case field_params' req (fst field_type) of
             None \<Rightarrow> None
           | Some field_param \<Rightarrow> json_parse e field_param))"

text \<open>
  The value under \<^verbatim>\<open>segment_size\<close> in the member \<^verbatim>\<open>extra_params_\<close>, when the key is
  there, converts to \<^verbatim>\<open>int64_t\<close>.
\<close>

definition segment_size_converts :: "env \<Rightarrow> CreateHybridCollectionRequest \<Rightarrow> bool" where
  "segment_size_converts e req =
     (contains (extra_params' req) ''segment_size'' \<longrightarrow>
        (case and_then (index_json (extra_params' req) ''segment_size'')
                (get_int64_t (double_to_int64_t e)) of
           Inr n \<Rightarrow> True | Inl ex \<Rightarrow> False))"

text \<open>
  A field carries a dimension when it is vector-typed, the parameter map has it, its
  parameter document parses and the document has the \<^verbatim>\<open>dimension\<close> key: the fields for
  which the loop assigns \<^verbatim>\<open>dimension\<close>. \<open>last_dimension_field\<close> is the last such field in
  the order of the loop.
\<close>

definition carries_dimension ::
  "env \<Rightarrow> CreateHybridCollectionRequest \<Rightarrow> string \<times> DataType \<Rightarrow> bool" where
  "carries_dimension e req field_type =
     (is_vector (snd field_type) \<and>
      (case field_params' req (fst field_type) of
         None \<Rightarrow> False
       | Some field_param \<Rightarrow>
           (case json_parse e field_param of
              None \<Rightarrow> False
            | Some vector_param \<Rightarrow> contains vector_param ''dimension'')))"

fun last_dimension_field ::
  "env \<Rightarrow> CreateHybridCollectionRequest \<Rightarrow> (string \<times> DataType) list
   \<Rightarrow> (string \<times> DataType) option" where
  "last_dimension_field e req [] = None"
| "last_dimension_field e req (field_type # rest) =
     (case last_dimension_field e req rest of
        Some later \<Rightarrow> Some later
      | None \<Rightarrow> if carries_dimension e req field_type then Some field_type else None)"

subsection \<open>An example environment\<close>

text \<open>
  A concrete environment for the closed theorems. Its parser is a finite table (the texts
  are written without the double quotes of JSON), its serialiser the table read the
  other way, its validator rejects the empty name, and its engine reports a conflict for
  the collection \<open>dup\<close> and another failure for \<open>err\<close>.
\<close>

definition example_parse :: "string \<Rightarrow> json option" where
  "example_parse = map_of
     [(''{dimension:128,metric_type:L2,index_type:IVF_FLAT}'',
         JObject [(''dimension'', JUInt 128), (''index_type'', JString ''IVF_FLAT''),
                  (''metric_type'', JString ''L2'')]),
      (''{dimension:64,metric_type:BOGUS}'',
         JObject [(''dimension'', JUInt 64), (''metric_type'', JString ''BOGUS'')]),
      (''{dimension:64}'', JObject [(''dimension'', JUInt 64)]),
      (''{dimension:128}'', JObject [(''dimension'', JUInt 128)]),
      (''{metric_type:IP,index_type:FLAT}'',
         JObject [(''index_type'', JString ''FLAT''), (''metric_type'', JString ''IP'')]),
      (''{dimension:abc}'', JObject [(''dimension'', JString ''abc'')]),
      (''{}'', JObject [])]"

definition example_dump :: "json \<Rightarrow> string" where
  "example_dump j =
     (if j = JObject [] then ''{}''
      else if j = JObject [(''name'', JString ''idx'')] then ''{name:idx}''
      else if j = JObject [(''name'', JUInt 7)] then ''{name:7}''
      else ''null'')"

definition example_what :: "exception \<Rightarrow> string" where
  "example_what ex =
     (case ex of
        out_of_range_unordered_map_at \<Rightarrow> ''_Map_base::at''
      | out_of_range_map_at \<Rightarrow> ''map::at''
      | parse_error text \<Rightarrow> ''parse error''
      | type_error j \<Rightarrow> ''type error'')"

definition example_DataType_int32_t :: "DataType \<Rightarrow> 32 word" where
  "example_DataType_int32_t t =
     (case t of FLOAT_VECTOR \<Rightarrow> 100 | BINARY_VECTOR \<Rightarrow> 101 | OTHER_TYPE n \<Rightarrow> of_nat n)"

definition example_env :: env where
  "example_env =
     \<lparr>ValidateCollectionName =
        (\<lambda>name. if name = [] then Status SERVER_INVALID_COLLECTION_NAME ''empty name'' else OK),
      CreateHybridCollection =
        (\<lambda>collection_info fields_schema.
           if CollectionSchema.collection_id' collection_info = ''dup''
           then Status DB_ALREADY_EXIST ''dup already exists''
           else if CollectionSchema.collection_id' collection_info = ''err''
           then Status (OTHER_ERROR 2) ''meta failure''
           else OK),
      fiu_fail = (\<lambda>name. False),
      json_parse = example_parse,
      json_dump = example_dump,
      double_to_uint16_t = (\<lambda>d. 0),
      double_to_int64_t = (\<lambda>d. 0),
      s_map_metric_type = [''L2'' \<mapsto> 1, ''IP'' \<mapsto> 2],
      s_map_engine_type = [''FLAT'' \<mapsto> 1, ''IVF_FLAT'' \<mapsto> 2],
      what = example_what,
      CollectionSchema_default =
        \<lparr>collection_id' = [], dimension' = 0, index_file_size' = 1024,
         engine_type' = 1, metric_type' = 1\<rparr>,
      FieldSchema_default =
        \<lparr>FieldSchema.collection_id' = [], field_name' = [], field_type' = 0,
         FieldSchema.field_params' = [], index_name' = [], index_param' = []\<rparr>,
      DataType_int32_t = example_DataType_int32_t\<rparr>"

section \<open>Properties of the loop\<close>

lemma and_then_Inr_iff:
  "and_then r rest = Inr y \<longleftrightarrow> (\<exists>v. r = Inr v \<and> rest v = Inr y)"
  by (cases r) (simp_all add: and_then_def)

lemma get_string_Inr_iff: "get_string v = Inr s \<longleftrightarrow> v = JString s"
  by (cases v) auto

lemma unordered_map_at_Inr_iff: "unordered_map_at m k = Inr v \<longleftrightarrow> m k = Some v"
  by (simp add: unordered_map_at_def split: option.splits)

lemma map_at_Inr_iff: "map_at m k = Inr v \<longleftrightarrow> m k = Some v"
  by (simp add: map_at_def split: option.splits)

lemma parse_Inr_iff: "parse e text = Inr j \<longleftrightarrow> json_parse e text = Some j"
  by (simp add: parse_def split: option.splits)

lemma set_index_name_Inr:
  assumes "set_index_name ip schema0 = Inr schema"
  shows "(if contains ip ''name''
          then \<exists>s. index_json ip ''name'' = Inr (JString s) \<and> schema = schema0\<lparr>index_name' := s\<rparr>
          else schema = schema0)"
  using assms unfolding set_index_name_def
  by (auto simp: and_then_Inr_iff get_string_Inr_iff split: if_splits)

lemma set_vector_param_Inr:
  assumes "set_vector_param e t fp (d, vp) = Inr (d', vp')"
  shows "(if is_vector t
          then json_parse e fp = Some vp' \<and>
               (if contains vp' ''dimension''
                then \<exists>v. index_json vp' ''dimension'' = Inr v \<and>
                         get_uint16_t (double_to_uint16_t e) v = Inr d'
                else d' = d)
          else d' = d \<and> vp' = vp)"
  using assms unfolding set_vector_param_def Let_def is_vector_def
  by (auto simp: and_then_Inr_iff parse_Inr_iff split: if_splits)


lemma loop_body_Inr:
  assumes "loop_body e req (n, t) (fs, d, vp) = Inr (fs', d', vp')"
  shows "\<exists>ip fp schema.
           field_index_params' req n = Some ip \<and> field_params' req n = Some fp \<and>
           fs' = fs\<lparr>fields_schema' := fields_schema' fs @ [schema]\<rparr> \<and>
           FieldSchema.collection_id' schema = collection_name' req \<and>
           field_name' schema = n \<and>
           field_type' schema = DataType_int32_t e t \<and>
           index_param' schema = json_dump e ip \<and>
           FieldSchema.field_params' schema = fp \<and>
           (if contains ip ''name''
            then index_json ip ''name'' = Inr (JString (index_name' schema))
            else index_name' schema = index_name' (FieldSchema_default e)) \<and>
           set_vector_param e t fp (d, vp) = Inr (d', vp')"
proof -
  let ?schema0 = "(FieldSchema_default e)
            \<lparr>FieldSchema.collection_id' := collection_name' req,
             field_name' := n, field_type' := DataType_int32_t e t\<rparr>"
  from assms obtain ip schema1 fp where
    ip: "field_index_params' req n = Some ip" and
    s1: "set_index_name ip ?schema0 = Inr schema1" and
    fp: "field_params' req n = Some fp" and
    v: "set_vector_param e t fp (d, vp) = Inr (d', vp')" and
    fs': "fs' = fs\<lparr>fields_schema' := fields_schema' fs @
            [schema1\<lparr>index_param' := json_dump e ip, FieldSchema.field_params' := fp\<rparr>]\<rparr>"
    unfolding loop_body_def Let_def
    by (auto simp: and_then_Inr_iff unordered_map_at_Inr_iff)
  let ?schema = "schema1\<lparr>index_param' := json_dump e ip, FieldSchema.field_params' := fp\<rparr>"
  have "(if contains ip ''name''
            then index_json ip ''name'' = Inr (JString (index_name' ?schema))
            else index_name' ?schema = index_name' (FieldSchema_default e)) \<and>
        FieldSchema.collection_id' ?schema = collection_name' req \<and>
        field_name' ?schema = n \<and> field_type' ?schema = DataType_int32_t e t"
    using set_index_name_Inr [OF s1] by (auto split: if_splits)
  with ip fp v fs' show ?thesis
    by (intro exI [of _ ip] exI [of _ fp] exI [of _ ?schema]) simp
qed


lemma set_index_name_succeeds_iff:
  "(\<exists>schema'. set_index_name ip schema = Inr schema') \<longleftrightarrow> name_is_string ip"
  unfolding set_index_name_def name_is_string_def
  by (auto simp: and_then_def split: sum.splits)

lemma set_vector_param_succeeds_iff:
  "(\<exists>vars'. set_vector_param e t fp vars = Inr vars') \<longleftrightarrow>
   (is_vector t \<longrightarrow>
      (case json_parse e fp of None \<Rightarrow> False | Some vp \<Rightarrow> dimension_converts e vp))"
  unfolding set_vector_param_def dimension_converts_def is_vector_def Let_def
  by (auto simp: and_then_def parse_def split: sum.splits option.splits)

lemma loop_body_succeeds_iff:
  "(\<exists>res. loop_body e req ft vars = Inr res) \<longleftrightarrow> field_well_formed e req ft"
proof (cases "field_index_params' req (fst ft)")
  case None
  then show ?thesis
    unfolding loop_body_def field_well_formed_def Let_def
    by (simp add: and_then_def unordered_map_at_def)
next
  case ip: (Some ip)
  let ?schema0 = "(FieldSchema_default e)
            \<lparr>FieldSchema.collection_id' := collection_name' req,
             field_name' := fst ft, field_type' := DataType_int32_t e (snd ft)\<rparr>"
  show ?thesis
  proof (cases "set_index_name ip ?schema0")
    case (Inl ex)
    then have "\<not> name_is_string ip"
      using set_index_name_succeeds_iff [of ip ?schema0] by simp
    with ip Inl show ?thesis
      unfolding loop_body_def field_well_formed_def Let_def
      by (simp add: and_then_def unordered_map_at_def)
  next
    case s1: (Inr schema1)
    then have nm: "name_is_string ip"
      using set_index_name_succeeds_iff [of ip ?schema0] by blast
    show ?thesis
    proof (cases "field_params' req (fst ft)")
      case None
      with ip s1 show ?thesis
        unfolding loop_body_def field_well_formed_def Let_def
        by (simp add: and_then_def unordered_map_at_def)
    next
      case fp: (Some fp)
      show ?thesis
      proof (cases "set_vector_param e (snd ft) fp (snd vars)")
        case (Inl ex)
        then have "\<not> (is_vector (snd ft) \<longrightarrow>
            (case json_parse e fp of None \<Rightarrow> False | Some vp \<Rightarrow> dimension_converts e vp))"
          using set_vector_param_succeeds_iff [of e "snd ft" fp "snd vars"] by simp
        with ip s1 fp Inl show ?thesis
          unfolding loop_body_def field_well_formed_def Let_def
          by (simp add: and_then_def unordered_map_at_def)
      next
        case (Inr vars')
        then have "is_vector (snd ft) \<longrightarrow>
            (case json_parse e fp of None \<Rightarrow> False | Some vp \<Rightarrow> dimension_converts e vp)"
          using set_vector_param_succeeds_iff [of e "snd ft" fp "snd vars"] by blast
        with ip s1 fp Inr nm show ?thesis
          unfolding loop_body_def field_well_formed_def Let_def
          by (simp add: and_then_def unordered_map_at_def)
      qed
    qed
  qed
qed


lemma loop_append:
  "loop e req (xs @ ys) vars = and_then (loop e req xs vars) (loop e req ys)"
  by (induction xs arbitrary: vars) (auto simp: and_then_def split: sum.splits)

lemma loop_succeeds_iff:
  "(\<exists>res. loop e req fts vars = Inr res) \<longleftrightarrow> list_all (field_well_formed e req) fts"
proof (induction fts arbitrary: vars)
  case Nil
  show ?case by (simp del: split_paired_Ex)
next
  case (Cons ft fts)
  show ?case
  proof (cases "loop_body e req ft vars")
    case (Inl ex)
    then have "\<not> field_well_formed e req ft"
      using loop_body_succeeds_iff [of e req ft vars] by simp
    with Inl show ?thesis
      by (simp add: and_then_def)
  next
    case (Inr vars')
    then have "field_well_formed e req ft"
      using loop_body_succeeds_iff [of e req ft vars] by blast
    with Inr Cons.IH [of vars'] show ?thesis
      by (simp add: and_then_def)
  qed
qed

lemma loop_body_built:
  assumes "loop_body e req ft (fs, d, vp) = Inr (fs', d', vp')"
  shows "\<exists>schema. fields_schema' fs' = fields_schema' fs @ [schema] \<and> built e req ft schema \<and>
           FieldSchema.collection_id' schema = collection_name' req"
proof -
  obtain n t where ft: "ft = (n, t)" by (cases ft)
  from loop_body_Inr [OF assms [unfolded ft]] show ?thesis
    unfolding built_def ft by (auto split: if_splits)
qed

lemma loop_body_scalar:
  assumes "loop_body e req ft (fs, d, vp) = Inr (fs', d', vp')" and "\<not> is_vector (snd ft)"
  shows "d' = d \<and> vp' = vp"
proof -
  obtain n t where ft: "ft = (n, t)" by (cases ft)
  from loop_body_Inr [OF assms(1) [unfolded ft]]
  have "set_vector_param e t (the (field_params' req n)) (d, vp) = Inr (d', vp')" by auto
  from set_vector_param_Inr [OF this] assms(2) show ?thesis
    unfolding ft by simp
qed

lemma loop_body_vector:
  assumes "loop_body e req ft (fs, d, vp) = Inr (fs', d', vp')" and "is_vector (snd ft)"
  shows "\<exists>fp. field_params' req (fst ft) = Some fp \<and> json_parse e fp = Some vp' \<and>
           (if contains vp' ''dimension''
            then \<exists>v. index_json vp' ''dimension'' = Inr v \<and>
                     get_uint16_t (double_to_uint16_t e) v = Inr d'
            else d' = d)"
proof -
  obtain n t where ft: "ft = (n, t)" by (cases ft)
  from loop_body_Inr [OF assms(1) [unfolded ft]] obtain fp where
    fp: "field_params' req n = Some fp" and
    v: "set_vector_param e t fp (d, vp) = Inr (d', vp')" by auto
  from set_vector_param_Inr [OF v] assms(2) fp show ?thesis
    unfolding ft by simp
qed

lemma loop_ConsE:
  assumes "loop e req (ft # fts) vars = Inr res"
  obtains fs1 d1 vp1 where "loop_body e req ft vars = Inr (fs1, d1, vp1)"
    and "loop e req fts (fs1, d1, vp1) = Inr res"
  using assms by (auto simp: and_then_Inr_iff)

lemma loop_built:
  "loop e req fts (fs, d, vp) = Inr (fs', d', vp') \<Longrightarrow>
   \<exists>new. fields_schema' fs' = fields_schema' fs @ new \<and> list_all2 (built e req) fts new \<and>
     (\<forall>schema \<in> set new. FieldSchema.collection_id' schema = collection_name' req)"
proof (induction fts arbitrary: fs d vp)
  case Nil
  then show ?case by simp
next
  case (Cons ft fts)
  from Cons.prems obtain fs1 d1 vp1 where
    body: "loop_body e req ft (fs, d, vp) = Inr (fs1, d1, vp1)" and
    rest: "loop e req fts (fs1, d1, vp1) = Inr (fs', d', vp')"
    by (rule loop_ConsE)
  from loop_body_built [OF body] obtain schema where
    s: "fields_schema' fs1 = fields_schema' fs @ [schema]" "built e req ft schema"
       "FieldSchema.collection_id' schema = collection_name' req"
    by blast
  from Cons.IH [OF rest] obtain new where
    n: "fields_schema' fs' = fields_schema' fs1 @ new" "list_all2 (built e req) fts new"
       "\<forall>schema \<in> set new. FieldSchema.collection_id' schema = collection_name' req"
    by blast
  show ?case
    by (rule exI [of _ "schema # new"]) (use s n in simp)
qed

lemma loop_no_vector:
  "loop e req fts (fs, d, vp) = Inr (fs', d', vp') \<Longrightarrow>
   \<forall>ft \<in> set fts. \<not> is_vector (snd ft) \<Longrightarrow> d' = d \<and> vp' = vp"
proof (induction fts arbitrary: fs d vp)
  case Nil
  then show ?case by simp
next
  case (Cons ft fts)
  from Cons.prems(1) obtain fs1 d1 vp1 where
    body: "loop_body e req ft (fs, d, vp) = Inr (fs1, d1, vp1)" and
    rest: "loop e req fts (fs1, d1, vp1) = Inr (fs', d', vp')"
    by (rule loop_ConsE)
  from loop_body_scalar [OF body] Cons.prems(2) have "d1 = d \<and> vp1 = vp" by simp
  moreover from Cons.IH [OF rest] Cons.prems(2) have "d' = d1 \<and> vp' = vp1" by simp
  ultimately show ?case by simp
qed

lemma loop_no_dimension:
  "loop e req fts (fs, d, vp) = Inr (fs', d', vp') \<Longrightarrow>
   \<forall>ft \<in> set fts. is_vector (snd ft) \<longrightarrow>
     (\<forall>fp doc. field_params' req (fst ft) = Some fp \<longrightarrow> json_parse e fp = Some doc \<longrightarrow>
        \<not> contains doc ''dimension'') \<Longrightarrow>
   d' = d"
proof (induction fts arbitrary: fs d vp)
  case Nil
  then show ?case by simp
next
  case (Cons ft fts)
  from Cons.prems(1) obtain fs1 d1 vp1 where
    body: "loop_body e req ft (fs, d, vp) = Inr (fs1, d1, vp1)" and
    rest: "loop e req fts (fs1, d1, vp1) = Inr (fs', d', vp')"
    by (rule loop_ConsE)
  have "d1 = d"
  proof (cases "is_vector (snd ft)")
    case True
    from loop_body_vector [OF body True] obtain fp where
      fp: "field_params' req (fst ft) = Some fp" "json_parse e fp = Some vp1" and
      d: "if contains vp1 ''dimension''
          then \<exists>v. index_json vp1 ''dimension'' = Inr v \<and>
                   get_uint16_t (double_to_uint16_t e) v = Inr d1
          else d1 = d" by blast
    from Cons.prems(2) True fp have "\<not> contains vp1 ''dimension''" by simp
    with d show ?thesis by simp
  next
    case False
    from loop_body_scalar [OF body False] show ?thesis by simp
  qed
  moreover from Cons.IH [OF rest] Cons.prems(2) have "d' = d1" by simp
  ultimately show ?case by simp
qed

lemma loop_last_vector:
  assumes run: "loop e req (pre @ ft # post) vars = Inr (fs', d', vp')"
    and vec: "is_vector (snd ft)"
    and post: "\<forall>ft' \<in> set post. \<not> is_vector (snd ft')"
  shows "\<exists>fp fs1 d1 vp1. loop e req pre vars = Inr (fs1, d1, vp1) \<and>
           field_params' req (fst ft) = Some fp \<and> json_parse e fp = Some vp' \<and>
           (if contains vp' ''dimension''
            then \<exists>v. index_json vp' ''dimension'' = Inr v \<and>
                     get_uint16_t (double_to_uint16_t e) v = Inr d'
            else d' = d1)"
proof -
  from run obtain fs1 d1 vp1 where
    p: "loop e req pre vars = Inr (fs1, d1, vp1)" and
    r: "loop e req (ft # post) (fs1, d1, vp1) = Inr (fs', d', vp')"
    by (auto simp: loop_append and_then_Inr_iff)
  from r obtain fs2 d2 vp2 where
    body: "loop_body e req ft (fs1, d1, vp1) = Inr (fs2, d2, vp2)" and
    rest: "loop e req post (fs2, d2, vp2) = Inr (fs', d', vp')"
    by (rule loop_ConsE)
  from loop_no_vector [OF rest post] have eq: "d' = d2" "vp' = vp2" by simp_all
  from loop_body_vector [OF body vec] p show ?thesis
    unfolding eq by blast
qed

section \<open>Properties of the statements after the loop\<close>

lemma set_index_file_size_Inr:
  assumes "set_index_file_size e req ci0 = Inr ci"
  shows "(if contains (extra_params' req) ''segment_size''
          then \<exists>v n. index_json (extra_params' req) ''segment_size'' = Inr v \<and>
                   get_int64_t (double_to_int64_t e) v = Inr n \<and>
                   ci = ci0\<lparr>index_file_size' := n\<rparr>
          else ci = ci0)"
  using assms unfolding set_index_file_size_def
  by (auto simp: and_then_Inr_iff split: if_splits)

lemma set_metric_type_Inr:
  assumes "set_metric_type e vp ci0 = Inr ci"
  shows "(if contains vp ''metric_type''
          then \<exists>s m. index_json vp ''metric_type'' = Inr (JString s) \<and>
                   s_map_metric_type e s = Some m \<and> ci = ci0\<lparr>metric_type' := m\<rparr>
          else ci = ci0)"
  using assms unfolding set_metric_type_def
  by (auto simp: and_then_Inr_iff get_string_Inr_iff map_at_Inr_iff split: if_splits)

lemma set_engine_type_Inr:
  assumes "set_engine_type e vp ci0 = Inr ci"
  shows "(if contains vp ''index_type''
          then \<exists>s m. index_json vp ''index_type'' = Inr (JString s) \<and>
                   s_map_engine_type e s = Some m \<and> ci = ci0\<lparr>engine_type' := m\<rparr>
          else ci = ci0)"
  using assms unfolding set_engine_type_def
  by (auto simp: and_then_Inr_iff get_string_Inr_iff map_at_Inr_iff split: if_splits)

lemma collection_info_of_Inr:
  assumes "collection_info_of e req d vp = Inr ci"
  shows "CollectionSchema.collection_id' ci = collection_name' req \<and> dimension' ci = d \<and>
         (if contains (extra_params' req) ''segment_size''
          then \<exists>v. index_json (extra_params' req) ''segment_size'' = Inr v \<and>
                   get_int64_t (double_to_int64_t e) v = Inr (index_file_size' ci)
          else index_file_size' ci = index_file_size' (CollectionSchema_default e)) \<and>
         (if contains vp ''metric_type''
          then \<exists>s. index_json vp ''metric_type'' = Inr (JString s) \<and>
                   s_map_metric_type e s = Some (metric_type' ci)
          else metric_type' ci = metric_type' (CollectionSchema_default e)) \<and>
         (if contains vp ''index_type''
          then \<exists>s. index_json vp ''index_type'' = Inr (JString s) \<and>
                   s_map_engine_type e s = Some (engine_type' ci)
          else engine_type' ci = engine_type' (CollectionSchema_default e))"
proof -
  from assms obtain ci1 ci2 where
    s1: "set_index_file_size e req ((CollectionSchema_default e)
            \<lparr>CollectionSchema.collection_id' := collection_name' req, dimension' := d\<rparr>) = Inr ci1"
    and s2: "set_metric_type e vp ci1 = Inr ci2"
    and s3: "set_engine_type e vp ci2 = Inr ci"
    unfolding collection_info_of_def Let_def by (auto simp: and_then_Inr_iff)
  have 1: "CollectionSchema.collection_id' ci1 = collection_name' req \<and> dimension' ci1 = d \<and>
      metric_type' ci1 = metric_type' (CollectionSchema_default e) \<and>
      engine_type' ci1 = engine_type' (CollectionSchema_default e) \<and>
      (if contains (extra_params' req) ''segment_size''
          then \<exists>v. index_json (extra_params' req) ''segment_size'' = Inr v \<and>
                   get_int64_t (double_to_int64_t e) v = Inr (index_file_size' ci1)
          else index_file_size' ci1 = index_file_size' (CollectionSchema_default e))"
    using set_index_file_size_Inr [OF s1] by (auto split: if_splits)
  have 2: "CollectionSchema.collection_id' ci2 = CollectionSchema.collection_id' ci1 \<and>
      dimension' ci2 = dimension' ci1 \<and> index_file_size' ci2 = index_file_size' ci1 \<and>
      engine_type' ci2 = engine_type' ci1 \<and>
      (if contains vp ''metric_type''
          then \<exists>s. index_json vp ''metric_type'' = Inr (JString s) \<and>
                   s_map_metric_type e s = Some (metric_type' ci2)
          else metric_type' ci2 = metric_type' ci1)"
    using set_metric_type_Inr [OF s2] by (auto split: if_splits)
  have 3: "CollectionSchema.collection_id' ci = CollectionSchema.collection_id' ci2 \<and>
      dimension' ci = dimension' ci2 \<and> index_file_size' ci = index_file_size' ci2 \<and>
      metric_type' ci = metric_type' ci2 \<and>
      (if contains vp ''index_type''
          then \<exists>s. index_json vp ''index_type'' = Inr (JString s) \<and>
                   s_map_engine_type e s = Some (engine_type' ci)
          else engine_type' ci = engine_type' ci2)"
    using set_engine_type_Inr [OF s3] by (auto split: if_splits)
  from 1 2 3 show ?thesis by (simp split: if_splits)
qed

section \<open>The vector field visited last\<close>

lemma last_vector_None_iff:
  "last_vector fts = None \<longleftrightarrow> (\<forall>ft \<in> set fts. \<not> is_vector (snd ft))"
  by (induction fts) (auto split: option.splits)

lemma last_vector_Some:
  "last_vector fts = Some ft \<Longrightarrow>
   \<exists>pre post. fts = pre @ ft # post \<and> is_vector (snd ft) \<and>
     (\<forall>ft' \<in> set post. \<not> is_vector (snd ft'))"
proof (induction fts)
  case Nil
  then show ?case by simp
next
  case (Cons x fts)
  show ?case
  proof (cases "last_vector fts")
    case None
    with Cons.prems have "ft = x" "is_vector (snd x)" by (auto split: if_splits)
    moreover from None have "\<forall>ft' \<in> set fts. \<not> is_vector (snd ft')"
      by (simp add: last_vector_None_iff)
    ultimately show ?thesis by (intro exI [of _ "[]"] exI [of _ fts]) simp
  next
    case (Some later)
    with Cons.prems have "last_vector fts = Some ft" by simp
    from Cons.IH [OF this] obtain pre post where
      "fts = pre @ ft # post \<and> is_vector (snd ft) \<and> (\<forall>ft' \<in> set post. \<not> is_vector (snd ft'))"
      by blast
    then show ?thesis by (intro exI [of _ "x # pre"] exI [of _ post]) simp
  qed
qed

section \<open>Properties of \<^verbatim>\<open>OnExecute\<close>\<close>

lemma step2_Inr_iff:
  "step2 e req = Inr (ci, fs) \<longleftrightarrow>
   (\<exists>d vp. assemble e req = Inr (fs, d, vp) \<and> collection_info_of e req d vp = Inr ci)"
  unfolding step2_def by (auto simp: and_then_Inr_iff)

lemma OnExecute_engine_call:
  assumes "snd (OnExecute e req) = (ci, fs) # calls"
  shows "step2 e req = Inr (ci, fs) \<and> calls = []"
  using assms unfolding OnExecute_def Let_def
  by (auto split: if_splits sum.splits)



lemma OnExecute_call:
  assumes "ok (ValidateCollectionName e (collection_name' req))"
    and "\<not> fiu_fail e ''CreateHybridCollectionRequest.OnExecute.invalid_collection_name''"
    and "step2 e req = Inr (ci, fs)"
  shows "snd (OnExecute e req) = [(ci, fs)] \<and>
         (\<not> fiu_fail e ''CreateHybridCollectionRequest.OnExecute.invalid_db_execute'' \<longrightarrow>
          ok (CreateHybridCollection e ci fs) \<longrightarrow> fst (OnExecute e req) = OK)"
  using assms unfolding OnExecute_def Let_def by simp

section \<open>Properties of step 2 as a whole\<close>

lemma assemble_succeeds_iff:
  "(\<exists>res. assemble e req = Inr res) \<longleftrightarrow> list_all (field_well_formed e req) (field_types' req)"
  unfolding assemble_def by (rule loop_succeeds_iff)



lemma assemble_last_vector:
  assumes "assemble e req = Inr (fs, d, vp)" and "last_vector (field_types' req) = Some ft"
  shows "last_vector_param e req = Some vp \<and>
         (contains vp ''dimension'' \<longrightarrow>
            (\<exists>v. index_json vp ''dimension'' = Inr v \<and>
                 get_uint16_t (double_to_uint16_t e) v = Inr d))"
proof -
  from last_vector_Some [OF assms(2)] obtain pre post where
    split: "field_types' req = pre @ ft # post" and vec: "is_vector (snd ft)" and
    post: "\<forall>ft' \<in> set post. \<not> is_vector (snd ft')" by blast
  from assms(1) have run: "loop e req (pre @ ft # post) (\<lparr>fields_schema' = []\<rparr>, 0, JNull) =
      Inr (fs, d, vp)"
    unfolding assemble_def split by simp
  from loop_last_vector [OF run vec post] obtain fp where
    "field_params' req (fst ft) = Some fp" "json_parse e fp = Some vp"
    "contains vp ''dimension'' \<longrightarrow>
            (\<exists>v. index_json vp ''dimension'' = Inr v \<and>
                 get_uint16_t (double_to_uint16_t e) v = Inr d)"
    by (auto split: if_splits)
  with assms(2) show ?thesis by (simp add: last_vector_param_def)
qed

lemma assemble_no_vector:
  assumes "assemble e req = Inr (fs, d, vp)" and "last_vector (field_types' req) = None"
  shows "d = 0 \<and> vp = JNull"
  using loop_no_vector [OF assms(1) [unfolded assemble_def]] assms(2)
  by (simp add: last_vector_None_iff)





lemma step2_last_vector:
  assumes "step2 e req = Inr (collection_info, fields_schema)"
    and "last_vector (field_types' req) = Some field_type"
  shows "\<exists>vector_param.
           last_vector_param e req = Some vector_param \<and>
           (if contains vector_param ''metric_type''
            then \<exists>s. index_json vector_param ''metric_type'' = Inr (JString s) \<and>
                     s_map_metric_type e s = Some (metric_type' collection_info)
            else metric_type' collection_info = metric_type' (CollectionSchema_default e)) \<and>
           (if contains vector_param ''index_type''
            then \<exists>s. index_json vector_param ''index_type'' = Inr (JString s) \<and>
                     s_map_engine_type e s = Some (engine_type' collection_info)
            else engine_type' collection_info = engine_type' (CollectionSchema_default e)) \<and>
           (contains vector_param ''dimension'' \<longrightarrow>
              (\<exists>v. index_json vector_param ''dimension'' = Inr v \<and>
                   get_uint16_t (double_to_uint16_t e) v = Inr (dimension' collection_info)))"
proof -
  from assms(1) obtain d vp where
    a: "assemble e req = Inr (fields_schema, d, vp)" and
    c: "collection_info_of e req d vp = Inr collection_info"
    unfolding step2_Inr_iff by blast
  from collection_info_of_Inr [OF c] assemble_last_vector [OF a assms(2)] show ?thesis
    by (intro exI [of _ vp]) simp
qed

text \<open>
  The running dimension at the end of the loop is the one assigned for the last field
  that carries a dimension, and the initial one when no field does.
\<close>

lemma loop_body_dimension:
  assumes "loop_body e req ft (fs, d, vp) = Inr (fs', d', vp')"
  shows "if carries_dimension e req ft
         then \<exists>fp doc v. field_params' req (fst ft) = Some fp \<and> json_parse e fp = Some doc \<and>
                index_json doc ''dimension'' = Inr v \<and>
                get_uint16_t (double_to_uint16_t e) v = Inr d'
         else d' = d"
proof (cases "is_vector (snd ft)")
  case False
  with loop_body_scalar [OF assms] show ?thesis
    by (simp add: carries_dimension_def)
next
  case True
  from loop_body_vector [OF assms True] obtain fp where
    fp: "field_params' req (fst ft) = Some fp" "json_parse e fp = Some vp'" and
    d: "if contains vp' ''dimension''
        then \<exists>v. index_json vp' ''dimension'' = Inr v \<and>
                 get_uint16_t (double_to_uint16_t e) v = Inr d'
        else d' = d" by blast
  from fp True have c: "carries_dimension e req ft = contains vp' ''dimension''"
    by (simp add: carries_dimension_def)
  show ?thesis
  proof (cases "contains vp' ''dimension''")
    case True
    with d fp c show ?thesis by auto
  next
    case False
    with d c show ?thesis by simp
  qed
qed

lemma loop_dimension:
  "loop e req fts (fs, d, vp) = Inr (fs', d', vp') \<Longrightarrow>
   (case last_dimension_field e req fts of
      None \<Rightarrow> d' = d
    | Some ft \<Rightarrow>
        \<exists>fp doc v. field_params' req (fst ft) = Some fp \<and> json_parse e fp = Some doc \<and>
          index_json doc ''dimension'' = Inr v \<and>
          get_uint16_t (double_to_uint16_t e) v = Inr d')"
proof (induction fts arbitrary: fs d vp)
  case Nil
  then show ?case by simp
next
  case (Cons ft fts)
  from Cons.prems obtain fs1 d1 vp1 where
    body: "loop_body e req ft (fs, d, vp) = Inr (fs1, d1, vp1)" and
    rest: "loop e req fts (fs1, d1, vp1) = Inr (fs', d', vp')"
    by (rule loop_ConsE)
  note ih = Cons.IH [OF rest]
  show ?case
  proof (cases "last_dimension_field e req fts")
    case (Some later)
    with ih show ?thesis by simp
  next
    case None
    with ih have eq: "d' = d1" by simp
    from loop_body_dimension [OF body] None show ?thesis
      unfolding eq by (simp split: if_splits)
  qed
qed

lemma step2_dimension:
  assumes "step2 e req = Inr (collection_info, fields_schema)"
  shows "(case last_dimension_field e req (field_types' req) of
      None \<Rightarrow> dimension' collection_info = 0
    | Some ft \<Rightarrow>
        \<exists>fp doc v. field_params' req (fst ft) = Some fp \<and> json_parse e fp = Some doc \<and>
          index_json doc ''dimension'' = Inr v \<and>
          get_uint16_t (double_to_uint16_t e) v = Inr (dimension' collection_info))"
proof -
  from assms obtain d vp where
    a: "assemble e req = Inr (fields_schema, d, vp)" and
    c: "collection_info_of e req d vp = Inr collection_info"
    unfolding step2_Inr_iff by blast
  from collection_info_of_Inr [OF c] have eq: "dimension' collection_info = d" by simp
  show ?thesis
    unfolding eq by (rule loop_dimension [OF a [unfolded assemble_def]])
qed

lemma last_vector_filter:
  "last_vector fts =
     (if filter (\<lambda>ft. is_vector (snd ft)) fts = [] then None
      else Some (last (filter (\<lambda>ft. is_vector (snd ft)) fts)))"
  by (induction fts) simp_all

lemma index_json_contains:
  "index_json j key = Inr v \<Longrightarrow> v \<noteq> JNull \<Longrightarrow> contains j key"
  by (cases j) (auto split: option.splits)

lemma collection_info_of_no_vector:
  assumes "segment_size_converts e req"
  shows "\<exists>ci. collection_info_of e req d JNull = Inr ci"
proof -
  have "\<exists>ci. set_index_file_size e req ci0 = Inr ci" for ci0
    using assms unfolding segment_size_converts_def set_index_file_size_def
    by (auto simp: and_then_def split: sum.splits)
  then show ?thesis
    unfolding collection_info_of_def Let_def
    by (auto simp: and_then_Inr_iff set_metric_type_def set_engine_type_def)
qed

lemma Create_segment_size_converts:
  "segment_size_converts e (Create name fts ips fps extra)"
  by (simp add: segment_size_converts_def Create_def new_CreateHybridCollectionRequest_def)

text \<open>
  A request made by \<^verbatim>\<open>Create\<close> never passes a segment size on: whatever document the
  caller gave, the engine receives the default \<^verbatim>\<open>index_file_size\<close>.
\<close>

lemma Create_index_file_size_default:
  assumes "snd (OnExecute e (Create name fts ips fps extra)) = [(ci, fs)]"
  shows "index_file_size' ci = index_file_size' (CollectionSchema_default e)"
proof -
  from OnExecute_engine_call [OF assms]
  have "step2 e (Create name fts ips fps extra) = Inr (ci, fs)" by simp
  then obtain d vp where
    "collection_info_of e (Create name fts ips fps extra) d vp = Inr ci"
    unfolding step2_Inr_iff by blast
  from collection_info_of_Inr [OF this] show ?thesis
    by (simp add: Create_def new_CreateHybridCollectionRequest_def)
qed

text \<open>The invariant of the assembled fields, for the fields the engine receives.\<close>

lemma engine_call_collection_id:
  assumes "snd (OnExecute e req) = [(ci, fs)]"
  shows "list_all (\<lambda>schema. FieldSchema.collection_id' schema = collection_name' req)
           (fields_schema' fs)"
proof -
  from OnExecute_engine_call [OF assms] have "step2 e req = Inr (ci, fs)" by simp
  then obtain d vp where "assemble e req = Inr (fs, d, vp)"
    unfolding step2_Inr_iff by blast
  from loop_built [OF this [unfolded assemble_def]] show ?thesis
    by (auto simp: list_all_iff)
qed

section \<open>The claims\<close>

text \<open>The facts that evaluate \<^verbatim>\<open>OnExecute\<close> in the example environment.\<close>

lemmas example_simps =
  example_env_def example_parse_def example_dump_def example_what_def
  example_DataType_int32_t_def OnExecute_def step2_def assemble_def collection_info_of_def
  set_index_file_size_def set_metric_type_def set_engine_type_def
  loop_body_def set_index_name_def set_vector_param_def
  and_then_def unordered_map_at_def map_at_def parse_def Status_def OK_def ok_def
  Create_def new_CreateHybridCollectionRequest_def

subsection \<open>C1: the request-level \<^verbatim>\<open>segment_size\<close>\<close>

text \<open>
  Claim C1: for every request whose extra-parameter document contains a \<^verbatim>\<open>segment_size\<close>
  key, the CollectionSchema passed to the storage engine has that value as
  \<^verbatim>\<open>index_file_size\<close>; without the key the request does not fail and the default stays.

  The constructor receives \<^verbatim>\<open>extra_params\<close> and \<^verbatim>\<open>OnExecute\<close> reads the member
  \<^verbatim>\<open>extra_params_\<close>, but the initialiser list never copies the one into the other. The
  request below is made with \<^verbatim>\<open>segment_size\<close> 512; the engine is called with the default
  1024 of the example environment.
\<close>

theorem C1_segment_size_not_stored:
  "OnExecute example_env
     (Create ''c'' [] Map.empty Map.empty (JObject [(''segment_size'', JInt 512)])) =
   (OK, [(\<lparr>collection_id' = ''c'', dimension' = 0, index_file_size' = 1024,
           engine_type' = 1, metric_type' = 1\<rparr>,
          \<lparr>fields_schema' = []\<rparr>)])"
  by (simp add: example_simps)

subsection \<open>C2: a field without configuration\<close>




subsection \<open>C3: the engine's result\<close>

text \<open>
  Claim C3: for every request that reaches the engine call, when the engine reports an
  already-exists conflict the caller gets the invalid-collection-name error carrying the
  engine's message; every other engine failure reaches the caller unchanged. The
  fault-injection point after the engine call is taken to be off.
\<close>

theorem C3_conflict_remap:
  assumes "snd (OnExecute e req) = [(collection_info, fields_schema)]"
    and "\<not> fiu_fail e ''CreateHybridCollectionRequest.OnExecute.invalid_db_execute''"
  shows "(code (CreateHybridCollection e collection_info fields_schema) = DB_ALREADY_EXIST \<longrightarrow>
            fst (OnExecute e req) =
              Status SERVER_INVALID_COLLECTION_NAME
                (message (CreateHybridCollection e collection_info fields_schema))) \<and>
         (\<not> ok (CreateHybridCollection e collection_info fields_schema) \<and>
          code (CreateHybridCollection e collection_info fields_schema) \<noteq> DB_ALREADY_EXIST \<longrightarrow>
            fst (OnExecute e req) = CreateHybridCollection e collection_info fields_schema)"
proof -
  from OnExecute_engine_call [OF assms(1)]
  have s: "step2 e req = Inr (collection_info, fields_schema)" by simp
  with assms(1) have v: "ok (if fiu_fail e ''CreateHybridCollectionRequest.OnExecute.invalid_collection_name''
                    then Status SERVER_UNEXPECTED_ERROR []
                    else ValidateCollectionName e (collection_name' req))"
    unfolding OnExecute_def Let_def by (auto split: if_splits)
  from s v assms(2) show ?thesis
    unfolding OnExecute_def Let_def by (simp add: ok_def)
qed

theorem C3_conflict_remap_witness:
  "snd (OnExecute example_env (Create ''dup'' [] Map.empty Map.empty JNull)) =
     [(\<lparr>collection_id' = ''dup'', dimension' = 0, index_file_size' = 1024,
        engine_type' = 1, metric_type' = 1\<rparr>, \<lparr>fields_schema' = []\<rparr>)] \<and>
   snd (OnExecute example_env (Create ''err'' [] Map.empty Map.empty JNull)) =
     [(\<lparr>collection_id' = ''err'', dimension' = 0, index_file_size' = 1024,
        engine_type' = 1, metric_type' = 1\<rparr>, \<lparr>fields_schema' = []\<rparr>)] \<and>
   \<not> fiu_fail example_env ''CreateHybridCollectionRequest.OnExecute.invalid_db_execute'' \<and>
   code (CreateHybridCollection example_env
     \<lparr>collection_id' = ''dup'', dimension' = 0, index_file_size' = 1024,
        engine_type' = 1, metric_type' = 1\<rparr> \<lparr>fields_schema' = []\<rparr>) = DB_ALREADY_EXIST \<and>
   fst (OnExecute example_env (Create ''dup'' [] Map.empty Map.empty JNull)) =
     Status SERVER_INVALID_COLLECTION_NAME ''dup already exists'' \<and>
   \<not> ok (CreateHybridCollection example_env
     \<lparr>collection_id' = ''err'', dimension' = 0, index_file_size' = 1024,
        engine_type' = 1, metric_type' = 1\<rparr> \<lparr>fields_schema' = []\<rparr>) \<and>
   code (CreateHybridCollection example_env
     \<lparr>collection_id' = ''err'', dimension' = 0, index_file_size' = 1024,
        engine_type' = 1, metric_type' = 1\<rparr> \<lparr>fields_schema' = []\<rparr>) \<noteq> DB_ALREADY_EXIST \<and>
   fst (OnExecute example_env (Create ''err'' [] Map.empty Map.empty JNull)) =
     Status (OTHER_ERROR 2) ''meta failure''"
proof -
  let ?ci = "\<lambda>name. \<lparr>collection_id' = name, dimension' = 0, index_file_size' = 1024,
        engine_type' = 1, metric_type' = (1 :: 32 word)\<rparr>"
  let ?fs = "\<lparr>fields_schema' = []\<rparr>"
  have dup: "snd (OnExecute example_env (Create ''dup'' [] Map.empty Map.empty JNull)) =
      [(?ci ''dup'', ?fs)]"
    by (simp add: example_simps)
  have err: "snd (OnExecute example_env (Create ''err'' [] Map.empty Map.empty JNull)) =
      [(?ci ''err'', ?fs)]"
    by (simp add: example_simps)
  have off: "\<not> fiu_fail example_env ''CreateHybridCollectionRequest.OnExecute.invalid_db_execute''"
    by (simp add: example_env_def)
  have c1: "code (CreateHybridCollection example_env (?ci ''dup'') ?fs) = DB_ALREADY_EXIST"
       "message (CreateHybridCollection example_env (?ci ''dup'') ?fs) = ''dup already exists''"
    by (simp_all add: example_env_def Status_def)
  have c2: "CreateHybridCollection example_env (?ci ''err'') ?fs =
      Status (OTHER_ERROR 2) ''meta failure''"
    by (simp add: example_env_def)
  have c3: "\<not> ok (Status (OTHER_ERROR 2) ''meta failure'')"
       "code (Status (OTHER_ERROR 2) ''meta failure'') \<noteq> DB_ALREADY_EXIST"
    by (simp_all add: ok_def Status_def)
  from C3_conflict_remap [OF dup off] C3_conflict_remap [OF err off] dup err off c1 c2 c3
  show ?thesis by simp
qed

subsection \<open>C4: malformed vector parameters\<close>




subsection \<open>C5: one FieldSchema per field\<close>

text \<open>
  Claim C5 as stated: when every field name of the type map is in both parameter maps
  and every vector field's parameter document parses, schema assembly succeeds and yields
  exactly one FieldSchema per field, with the field's name, data-type code, serialised
  index document and, when present, index name.

  Two requests that meet the conditions and whose assembly throws: in the first the index
  document's \<^verbatim>\<open>name\<close> is the number 7, and its conversion to \<^verbatim>\<open>std::string\<close> throws a
  \<^verbatim>\<open>type_error\<close>; in the second the vector field's document parses and its \<^verbatim>\<open>dimension\<close>
  is the string \<open>abc\<close>, and \<^verbatim>\<open>get<uint16_t>()\<close> throws a \<^verbatim>\<open>type_error\<close>.
\<close>

theorem C5_assembly_counterexample:
  "assemble example_env
     (Create ''c'' [(''a'', OTHER_TYPE 4)] [''a'' \<mapsto> JObject [(''name'', JUInt 7)]]
        [''a'' \<mapsto> ''{}''] JNull) = Inl (type_error (JUInt 7)) \<and>
   OnExecute example_env
     (Create ''c'' [(''a'', OTHER_TYPE 4)] [''a'' \<mapsto> JObject [(''name'', JUInt 7)]]
        [''a'' \<mapsto> ''{}''] JNull) = (Status SERVER_UNEXPECTED_ERROR ''type error'', []) \<and>
   assemble example_env
     (Create ''c'' [(''v'', FLOAT_VECTOR)] [''v'' \<mapsto> JObject []]
        [''v'' \<mapsto> ''{dimension:abc}''] JNull) = Inl (type_error (JString ''abc'')) \<and>
   OnExecute example_env
     (Create ''c'' [(''v'', FLOAT_VECTOR)] [''v'' \<mapsto> JObject []]
        [''v'' \<mapsto> ''{dimension:abc}''] JNull) = (Status SERVER_UNEXPECTED_ERROR ''type error'', [])"
  by (simp add: example_simps)

text \<open>
  Claim C5 as amended: when, in addition to the claim's two conditions, every index
  document's \<^verbatim>\<open>name\<close> (if present) is a string and every vector field's \<^verbatim>\<open>dimension\<close> (if
  present) converts to \<^verbatim>\<open>uint16_t\<close>, assembly succeeds and yields exactly one FieldSchema
  per field, in the order of the type map, each \<open>built\<close> from its field.
\<close>

theorem C5_assembly:
  assumes "\<forall>field_type \<in> set (field_types' req).
             fst field_type \<in> dom (field_index_params' req) \<and>
             fst field_type \<in> dom (field_params' req)"
    and "\<forall>field_type \<in> set (field_types' req). is_vector (snd field_type) \<longrightarrow>
           (\<forall>field_param. field_params' req (fst field_type) = Some field_param \<longrightarrow>
              json_parse e field_param \<noteq> None)"
    and "\<forall>field_type \<in> set (field_types' req).
           \<forall>index_params. field_index_params' req (fst field_type) = Some index_params \<longrightarrow>
             name_is_string index_params"
    and "\<forall>field_type \<in> set (field_types' req). is_vector (snd field_type) \<longrightarrow>
           (\<forall>field_param vector_param.
              field_params' req (fst field_type) = Some field_param \<longrightarrow>
              json_parse e field_param = Some vector_param \<longrightarrow>
              dimension_converts e vector_param)"
  shows "\<exists>fields_schema dimension vector_param.
           assemble e req = Inr (fields_schema, dimension, vector_param) \<and>
           list_all2 (built e req) (field_types' req) (fields_schema' fields_schema)"
proof -
  have "field_well_formed e req ft" if ft: "ft \<in> set (field_types' req)" for ft
  proof -
    from assms(1) ft obtain ip fp where
      ip: "field_index_params' req (fst ft) = Some ip" and
      fp: "field_params' req (fst ft) = Some fp" by blast
    from assms(3) ft ip have n: "name_is_string ip" by blast
    have "case json_parse e fp of None \<Rightarrow> False | Some vp \<Rightarrow> dimension_converts e vp"
      if "is_vector (snd ft)"
    proof (cases "json_parse e fp")
      case None
      with assms(2) ft fp that show ?thesis by blast
    next
      case (Some vp)
      with assms(4) ft fp that show ?thesis by simp
    qed
    with ip fp n show ?thesis
      unfolding field_well_formed_def by simp
  qed
  then have "list_all (field_well_formed e req) (field_types' req)"
    by (simp add: list_all_iff)
  then obtain res where "assemble e req = Inr res"
    using assemble_succeeds_iff [of e req] by blast
  then obtain fs d vp where run: "assemble e req = Inr (fs, d, vp)"
    by (cases res) auto
  from loop_built [OF run [unfolded assemble_def]]
  have "list_all2 (built e req) (field_types' req) (fields_schema' fs)" by auto
  with run show ?thesis by blast
qed

theorem C5_assembly_witness:
  "list_all (field_well_formed example_env
       (Create ''c'' [(''v'', FLOAT_VECTOR), (''a'', OTHER_TYPE 4)]
          [''v'' \<mapsto> JObject [(''name'', JString ''idx'')], ''a'' \<mapsto> JObject []]
          [''v'' \<mapsto> ''{dimension:128}'', ''a'' \<mapsto> ''{}''] JNull))
     [(''v'', FLOAT_VECTOR), (''a'', OTHER_TYPE 4)] \<and>
   assemble example_env
     (Create ''c'' [(''v'', FLOAT_VECTOR), (''a'', OTHER_TYPE 4)]
        [''v'' \<mapsto> JObject [(''name'', JString ''idx'')], ''a'' \<mapsto> JObject []]
        [''v'' \<mapsto> ''{dimension:128}'', ''a'' \<mapsto> ''{}''] JNull) =
   Inr (\<lparr>fields_schema' =
          [\<lparr>FieldSchema.collection_id' = ''c'', field_name' = ''v'', field_type' = 100,
            FieldSchema.field_params' = ''{dimension:128}'', index_name' = ''idx'',
            index_param' = ''{name:idx}''\<rparr>,
           \<lparr>FieldSchema.collection_id' = ''c'', field_name' = ''a'', field_type' = 4,
            FieldSchema.field_params' = ''{}'', index_name' = [], index_param' = ''{}''\<rparr>]\<rparr>,
        128, JObject [(''dimension'', JUInt 128)]) \<and>
   list_all2
     (built example_env
       (Create ''c'' [(''v'', FLOAT_VECTOR), (''a'', OTHER_TYPE 4)]
          [''v'' \<mapsto> JObject [(''name'', JString ''idx'')], ''a'' \<mapsto> JObject []]
          [''v'' \<mapsto> ''{dimension:128}'', ''a'' \<mapsto> ''{}''] JNull))
     [(''v'', FLOAT_VECTOR), (''a'', OTHER_TYPE 4)]
     [\<lparr>FieldSchema.collection_id' = ''c'', field_name' = ''v'', field_type' = 100,
       FieldSchema.field_params' = ''{dimension:128}'', index_name' = ''idx'',
       index_param' = ''{name:idx}''\<rparr>,
      \<lparr>FieldSchema.collection_id' = ''c'', field_name' = ''a'', field_type' = 4,
       FieldSchema.field_params' = ''{}'', index_name' = [], index_param' = ''{}''\<rparr>]"
proof -
  let ?req = "Create ''c'' [(''v'', FLOAT_VECTOR), (''a'', OTHER_TYPE 4)]
          [''v'' \<mapsto> JObject [(''name'', JString ''idx'')], ''a'' \<mapsto> JObject []]
          [''v'' \<mapsto> ''{dimension:128}'', ''a'' \<mapsto> ''{}''] JNull"
  let ?fields = "[\<lparr>FieldSchema.collection_id' = ''c'', field_name' = ''v'', field_type' = 100,
       FieldSchema.field_params' = ''{dimension:128}'', index_name' = ''idx'',
       index_param' = ''{name:idx}''\<rparr>,
      \<lparr>FieldSchema.collection_id' = ''c'', field_name' = ''a'', field_type' = 4,
       FieldSchema.field_params' = ''{}'', index_name' = [], index_param' = ''{}''\<rparr>]"
  have req: "field_types' ?req = [(''v'', FLOAT_VECTOR), (''a'', OTHER_TYPE 4)]"
    "field_index_params' ?req = [''v'' \<mapsto> JObject [(''name'', JString ''idx'')], ''a'' \<mapsto> JObject []]"
    "field_params' ?req = [''v'' \<mapsto> ''{dimension:128}'', ''a'' \<mapsto> ''{}'']"
    by (simp_all add: Create_def new_CreateHybridCollectionRequest_def)
  have 1: "\<forall>field_type \<in> set (field_types' ?req).
             fst field_type \<in> dom (field_index_params' ?req) \<and>
             fst field_type \<in> dom (field_params' ?req)"
    unfolding req by simp
  have 2: "\<forall>field_type \<in> set (field_types' ?req). is_vector (snd field_type) \<longrightarrow>
           (\<forall>field_param. field_params' ?req (fst field_type) = Some field_param \<longrightarrow>
              json_parse example_env field_param \<noteq> None)"
    unfolding req by (simp add: is_vector_def example_env_def example_parse_def)
  have 3: "\<forall>field_type \<in> set (field_types' ?req).
           \<forall>index_params. field_index_params' ?req (fst field_type) = Some index_params \<longrightarrow>
             name_is_string index_params"
    unfolding req by (simp add: name_is_string_def and_then_def)
  have 4: "\<forall>field_type \<in> set (field_types' ?req). is_vector (snd field_type) \<longrightarrow>
           (\<forall>field_param vector_param.
              field_params' ?req (fst field_type) = Some field_param \<longrightarrow>
              json_parse example_env field_param = Some vector_param \<longrightarrow>
              dimension_converts example_env vector_param)"
    unfolding req
    by (auto simp: is_vector_def example_env_def example_parse_def dimension_converts_def
        and_then_def)
  have wf: "list_all (field_well_formed example_env ?req)
      [(''v'', FLOAT_VECTOR), (''a'', OTHER_TYPE 4)]"
    by (simp add: field_well_formed_def name_is_string_def dimension_converts_def
        is_vector_def example_simps)
  have run: "assemble example_env ?req =
      Inr (\<lparr>fields_schema' = ?fields\<rparr>, 128, JObject [(''dimension'', JUInt 128)])"
    by (simp add: example_simps)
  from C5_assembly [OF 1 2 3 4] run
  have "list_all2 (built example_env ?req) (field_types' ?req) ?fields" by simp
  with wf run show ?thesis unfolding req by simp
qed

subsection \<open>C6: the attributes derived from the vector field\<close>

text \<open>
  Claim C6: for a request with exactly one vector-typed field whose parameter document
  has \<^verbatim>\<open>dimension\<close> 128, \<^verbatim>\<open>metric_type\<close> \<open>L2\<close> and \<^verbatim>\<open>index_type\<close> \<open>IVF_FLAT\<close>, the
  CollectionSchema the engine receives has dimension 128 and the two codes the tables give
  for these strings; for a request with no vector-typed field the dimension is 0 and both
  codes are the default-constructed ones, and the request succeeds when it is otherwise
  valid: a valid name, well-formed fields, a segment size that converts, the
  fault-injection points off and an engine that accepts the call.
\<close>

theorem C6_vector_derivation:
  "(snd (OnExecute e req) = [(collection_info, fields_schema)] \<and>
    filter (\<lambda>field_type. is_vector (snd field_type)) (field_types' req) = [field_type] \<and>
    field_params' req (fst field_type) = Some field_param \<and>
    json_parse e field_param = Some vector_param \<and>
    (index_json vector_param ''dimension'' = Inr (JUInt 128) \<or>
     index_json vector_param ''dimension'' = Inr (JInt 128)) \<and>
    index_json vector_param ''metric_type'' = Inr (JString ''L2'') \<and>
    index_json vector_param ''index_type'' = Inr (JString ''IVF_FLAT'') \<longrightarrow>
      dimension' collection_info = 128 \<and>
      s_map_metric_type e ''L2'' = Some (metric_type' collection_info) \<and>
      s_map_engine_type e ''IVF_FLAT'' = Some (engine_type' collection_info)) \<and>
   (snd (OnExecute e req) = [(collection_info, fields_schema)] \<and>
    filter (\<lambda>field_type. is_vector (snd field_type)) (field_types' req) = [] \<longrightarrow>
      dimension' collection_info = 0 \<and>
      metric_type' collection_info = metric_type' (CollectionSchema_default e) \<and>
      engine_type' collection_info = engine_type' (CollectionSchema_default e)) \<and>
   (filter (\<lambda>field_type. is_vector (snd field_type)) (field_types' req) = [] \<and>
    ok (ValidateCollectionName e (collection_name' req)) \<and>
    \<not> fiu_fail e ''CreateHybridCollectionRequest.OnExecute.invalid_collection_name'' \<and>
    \<not> fiu_fail e ''CreateHybridCollectionRequest.OnExecute.invalid_db_execute'' \<and>
    list_all (field_well_formed e req) (field_types' req) \<and>
    segment_size_converts e req \<longrightarrow>
      (\<exists>ci fs. snd (OnExecute e req) = [(ci, fs)] \<and>
         (ok (CreateHybridCollection e ci fs) \<longrightarrow> fst (OnExecute e req) = OK)))"
proof (intro conjI impI)
  assume h: "snd (OnExecute e req) = [(collection_info, fields_schema)] \<and>
    filter (\<lambda>field_type. is_vector (snd field_type)) (field_types' req) = [field_type] \<and>
    field_params' req (fst field_type) = Some field_param \<and>
    json_parse e field_param = Some vector_param \<and>
    (index_json vector_param ''dimension'' = Inr (JUInt 128) \<or>
     index_json vector_param ''dimension'' = Inr (JInt 128)) \<and>
    index_json vector_param ''metric_type'' = Inr (JString ''L2'') \<and>
    index_json vector_param ''index_type'' = Inr (JString ''IVF_FLAT'')"
  then have lv: "last_vector (field_types' req) = Some field_type"
    by (simp add: last_vector_filter)
  from h have lp: "last_vector_param e req = Some vector_param"
    by (simp add: last_vector_param_def lv)
  from h have c: "contains vector_param ''dimension''" "contains vector_param ''metric_type''"
    "contains vector_param ''index_type''"
    by (auto intro: index_json_contains)
  from h have call: "snd (OnExecute e req) = [(collection_info, fields_schema)]" by simp
  from OnExecute_engine_call [OF call] have "step2 e req = Inr (collection_info, fields_schema)" by simp
  from step2_last_vector [OF this lv] lp c
  have r: "(\<exists>s. index_json vector_param ''metric_type'' = Inr (JString s) \<and>
                     s_map_metric_type e s = Some (metric_type' collection_info))"
    "(\<exists>s. index_json vector_param ''index_type'' = Inr (JString s) \<and>
                     s_map_engine_type e s = Some (engine_type' collection_info))"
    "(\<exists>v. index_json vector_param ''dimension'' = Inr v \<and>
                   get_uint16_t (double_to_uint16_t e) v = Inr (dimension' collection_info))"
    by auto
  from r(3) h show "dimension' collection_info = 128" by auto
  from r(1) h show "s_map_metric_type e ''L2'' = Some (metric_type' collection_info)" by auto
  from r(2) h show "s_map_engine_type e ''IVF_FLAT'' = Some (engine_type' collection_info)"
    by auto
next
  assume h: "snd (OnExecute e req) = [(collection_info, fields_schema)] \<and>
    filter (\<lambda>field_type. is_vector (snd field_type)) (field_types' req) = []"
  then have lv: "last_vector (field_types' req) = None"
    by (simp add: last_vector_filter)
  from h OnExecute_engine_call [of e req collection_info fields_schema "[]"]
  have "step2 e req = Inr (collection_info, fields_schema)" by simp
  then obtain d vp where
    a: "assemble e req = Inr (fields_schema, d, vp)" and
    c: "collection_info_of e req d vp = Inr collection_info"
    unfolding step2_Inr_iff by blast
  from assemble_no_vector [OF a lv] have "d = 0" "vp = JNull" by simp_all
  with collection_info_of_Inr [OF c]
  have "dimension' collection_info = 0 \<and>
      metric_type' collection_info = metric_type' (CollectionSchema_default e) \<and>
      engine_type' collection_info = engine_type' (CollectionSchema_default e)" by simp
  then show "dimension' collection_info = 0"
    "metric_type' collection_info = metric_type' (CollectionSchema_default e)"
    "engine_type' collection_info = engine_type' (CollectionSchema_default e)" by simp_all
next
  assume h: "filter (\<lambda>field_type. is_vector (snd field_type)) (field_types' req) = [] \<and>
    ok (ValidateCollectionName e (collection_name' req)) \<and>
    \<not> fiu_fail e ''CreateHybridCollectionRequest.OnExecute.invalid_collection_name'' \<and>
    \<not> fiu_fail e ''CreateHybridCollectionRequest.OnExecute.invalid_db_execute'' \<and>
    list_all (field_well_formed e req) (field_types' req) \<and>
    segment_size_converts e req"
  then have lv: "last_vector (field_types' req) = None"
    by (simp add: last_vector_filter)
  from h obtain res where "assemble e req = Inr res"
    using assemble_succeeds_iff [of e req] by blast
  then obtain fs d vp where a: "assemble e req = Inr (fs, d, vp)" by (cases res) auto
  from assemble_no_vector [OF a lv] have vp: "vp = JNull" by simp
  from h collection_info_of_no_vector [of e req d] obtain ci where
    c: "collection_info_of e req d JNull = Inr ci" by blast
  from a c vp have s: "step2 e req = Inr (ci, fs)"
    unfolding step2_Inr_iff by blast
  from h OnExecute_call [OF _ _ s]
  have "snd (OnExecute e req) = [(ci, fs)] \<and>
         (ok (CreateHybridCollection e ci fs) \<longrightarrow> fst (OnExecute e req) = OK)" by simp
  then show "\<exists>ci fs. snd (OnExecute e req) = [(ci, fs)] \<and>
         (ok (CreateHybridCollection e ci fs) \<longrightarrow> fst (OnExecute e req) = OK)" by blast
qed

theorem C6_vector_derivation_witness:
  "snd (OnExecute example_env
     (Create ''c'' [(''a'', OTHER_TYPE 4), (''v'', FLOAT_VECTOR)]
        [''a'' \<mapsto> JObject [], ''v'' \<mapsto> JObject []]
        [''a'' \<mapsto> ''{}'',
         ''v'' \<mapsto> ''{dimension:128,metric_type:L2,index_type:IVF_FLAT}''] JNull)) =
   [(\<lparr>collection_id' = ''c'', dimension' = 128, index_file_size' = 1024,
      engine_type' = 2, metric_type' = 1\<rparr>,
     \<lparr>fields_schema' =
        [\<lparr>FieldSchema.collection_id' = ''c'', field_name' = ''a'', field_type' = 4,
          FieldSchema.field_params' = ''{}'', index_name' = [], index_param' = ''{}''\<rparr>,
         \<lparr>FieldSchema.collection_id' = ''c'', field_name' = ''v'', field_type' = 100,
          FieldSchema.field_params' = ''{dimension:128,metric_type:L2,index_type:IVF_FLAT}'',
          index_name' = [], index_param' = ''{}''\<rparr>]\<rparr>)] \<and>
   filter (\<lambda>field_type. is_vector (snd field_type))
     [(''a'', OTHER_TYPE 4), (''v'', FLOAT_VECTOR)] = [(''v'', FLOAT_VECTOR)] \<and>
   s_map_metric_type example_env ''L2'' = Some 1 \<and>
   s_map_engine_type example_env ''IVF_FLAT'' = Some 2 \<and>
   OnExecute example_env
     (Create ''c'' [(''a'', OTHER_TYPE 4)] [''a'' \<mapsto> JObject []] [''a'' \<mapsto> ''{}''] JNull) =
   (OK,
    [(\<lparr>collection_id' = ''c'', dimension' = 0, index_file_size' = 1024,
       engine_type' = 1, metric_type' = 1\<rparr>,
      \<lparr>fields_schema' =
        [\<lparr>FieldSchema.collection_id' = ''c'', field_name' = ''a'', field_type' = 4,
          FieldSchema.field_params' = ''{}'', index_name' = [], index_param' = ''{}''\<rparr>]\<rparr>)]) \<and>
   filter (\<lambda>field_type. is_vector (snd field_type)) [(''a'', OTHER_TYPE 4)] = [] \<and>
   list_all
     (field_well_formed example_env
        (Create ''c'' [(''a'', OTHER_TYPE 4)] [''a'' \<mapsto> JObject []] [''a'' \<mapsto> ''{}''] JNull))
     [(''a'', OTHER_TYPE 4)] \<and>
   segment_size_converts example_env
     (Create ''c'' [(''a'', OTHER_TYPE 4)] [''a'' \<mapsto> JObject []] [''a'' \<mapsto> ''{}''] JNull)"
proof -
  let ?r1 = "Create ''c'' [(''a'', OTHER_TYPE 4), (''v'', FLOAT_VECTOR)]
        [''a'' \<mapsto> JObject [], ''v'' \<mapsto> JObject []]
        [''a'' \<mapsto> ''{}'',
         ''v'' \<mapsto> ''{dimension:128,metric_type:L2,index_type:IVF_FLAT}''] JNull"
  let ?ci1 = "\<lparr>collection_id' = ''c'', dimension' = 128, index_file_size' = 1024,
      engine_type' = 2, metric_type' = (1 :: 32 word)\<rparr>"
  let ?fs1 = "\<lparr>fields_schema' =
        [\<lparr>FieldSchema.collection_id' = ''c'', field_name' = ''a'', field_type' = 4,
          FieldSchema.field_params' = ''{}'', index_name' = [], index_param' = ''{}''\<rparr>,
         \<lparr>FieldSchema.collection_id' = ''c'', field_name' = ''v'', field_type' = 100,
          FieldSchema.field_params' = ''{dimension:128,metric_type:L2,index_type:IVF_FLAT}'',
          index_name' = [], index_param' = ''{}''\<rparr>]\<rparr>"
  let ?doc = "JObject [(''dimension'', JUInt 128), (''index_type'', JString ''IVF_FLAT''),
                    (''metric_type'', JString ''L2'')]"
  let ?r0 = "Create ''c'' [(''a'', OTHER_TYPE 4)] [''a'' \<mapsto> JObject []] [''a'' \<mapsto> ''{}''] JNull"
  let ?ci0 = "\<lparr>collection_id' = ''c'', dimension' = 0, index_file_size' = 1024,
       engine_type' = 1, metric_type' = (1 :: 32 word)\<rparr>"
  let ?fs0 = "\<lparr>fields_schema' =
        [\<lparr>FieldSchema.collection_id' = ''c'', field_name' = ''a'', field_type' = 4,
          FieldSchema.field_params' = ''{}'', index_name' = [], index_param' = ''{}''\<rparr>]\<rparr>"
  have call1: "snd (OnExecute example_env ?r1) = [(?ci1, ?fs1)]"
    by (simp add: example_simps)
  have one: "filter (\<lambda>field_type. is_vector (snd field_type)) (field_types' ?r1) =
      [(''v'', FLOAT_VECTOR)]"
    by (simp add: is_vector_def Create_def new_CreateHybridCollectionRequest_def)
  have fp: "field_params' ?r1 (fst (''v'', FLOAT_VECTOR)) =
      Some ''{dimension:128,metric_type:L2,index_type:IVF_FLAT}''"
    by (simp add: Create_def new_CreateHybridCollectionRequest_def)
  have doc: "json_parse example_env ''{dimension:128,metric_type:L2,index_type:IVF_FLAT}'' =
      Some ?doc"
    by (simp add: example_env_def example_parse_def)
  have keys: "index_json ?doc ''dimension'' = Inr (JUInt 128) \<or>
      index_json ?doc ''dimension'' = Inr (JInt 128)"
    "index_json ?doc ''metric_type'' = Inr (JString ''L2'')"
    "index_json ?doc ''index_type'' = Inr (JString ''IVF_FLAT'')"
    by simp_all
  have part1: "dimension' ?ci1 = 128 \<and>
      s_map_metric_type example_env ''L2'' = Some (metric_type' ?ci1) \<and>
      s_map_engine_type example_env ''IVF_FLAT'' = Some (engine_type' ?ci1)"
    using C6_vector_derivation [of example_env ?r1 ?ci1 ?fs1 "(''v'', FLOAT_VECTOR)"
        "''{dimension:128,metric_type:L2,index_type:IVF_FLAT}''" ?doc]
      call1 one fp doc keys
    by blast
  have run0: "OnExecute example_env ?r0 = (OK, [(?ci0, ?fs0)])"
    by (simp add: example_simps)
  have none: "filter (\<lambda>field_type. is_vector (snd field_type)) (field_types' ?r0) = []"
    by (simp add: is_vector_def Create_def new_CreateHybridCollectionRequest_def)
  have wf: "list_all (field_well_formed example_env ?r0) (field_types' ?r0)"
    by (simp add: field_well_formed_def name_is_string_def is_vector_def example_simps)
  have seg: "segment_size_converts example_env ?r0"
    by (rule Create_segment_size_converts)
  have valid: "ok (ValidateCollectionName example_env (collection_name' ?r0))"
    "\<not> fiu_fail example_env ''CreateHybridCollectionRequest.OnExecute.invalid_collection_name''"
    "\<not> fiu_fail example_env ''CreateHybridCollectionRequest.OnExecute.invalid_db_execute''"
    by (simp_all add: example_simps)
  have part2: "dimension' ?ci0 = 0 \<and>
      metric_type' ?ci0 = metric_type' (CollectionSchema_default example_env) \<and>
      engine_type' ?ci0 = engine_type' (CollectionSchema_default example_env)"
    using C6_vector_derivation [of example_env ?r0 ?ci0 ?fs0] run0 none
    by simp
  have part3: "\<exists>ci fs. snd (OnExecute example_env ?r0) = [(ci, fs)] \<and>
         (ok (CreateHybridCollection example_env ci fs) \<longrightarrow>
          fst (OnExecute example_env ?r0) = OK)"
    using C6_vector_derivation [of example_env ?r0 ?ci0 ?fs0] none wf seg valid
    by blast
  from call1 one part1 run0 none wf seg part2 part3 show ?thesis
    by (simp add: Create_def new_CreateHybridCollectionRequest_def)
qed

subsection \<open>C7: several vector fields\<close>

text \<open>
  Claim C7 as stated: with more than one vector-typed field, the vector field visited
  last determines the dimension, the metric code and the engine code of the
  CollectionSchema.

  The two requests below have the same vector field \<open>w\<close> visited last, with the same
  parameter document, which has no \<^verbatim>\<open>dimension\<close> key. The engine receives dimension 64 for
  the one and 128 for the other: the value comes from the earlier vector field \<open>v\<close>,
  because the assignment to \<^verbatim>\<open>dimension\<close> is guarded by the test for the key.
\<close>

theorem C7_last_vector_counterexample:
  "last_vector [(''v'', FLOAT_VECTOR), (''w'', BINARY_VECTOR)] = Some (''w'', BINARY_VECTOR) \<and>
   snd (OnExecute example_env
     (Create ''c'' [(''v'', FLOAT_VECTOR), (''w'', BINARY_VECTOR)]
        [''v'' \<mapsto> JObject [], ''w'' \<mapsto> JObject []]
        [''v'' \<mapsto> ''{dimension:64}'', ''w'' \<mapsto> ''{metric_type:IP,index_type:FLAT}''] JNull)) =
   [(\<lparr>collection_id' = ''c'', dimension' = 64, index_file_size' = 1024,
      engine_type' = 1, metric_type' = 2\<rparr>,
     \<lparr>fields_schema' =
        [\<lparr>FieldSchema.collection_id' = ''c'', field_name' = ''v'', field_type' = 100,
          FieldSchema.field_params' = ''{dimension:64}'',
          index_name' = [], index_param' = ''{}''\<rparr>,
         \<lparr>FieldSchema.collection_id' = ''c'', field_name' = ''w'', field_type' = 101,
          FieldSchema.field_params' = ''{metric_type:IP,index_type:FLAT}'',
          index_name' = [], index_param' = ''{}''\<rparr>]\<rparr>)] \<and>
   snd (OnExecute example_env
     (Create ''c'' [(''v'', FLOAT_VECTOR), (''w'', BINARY_VECTOR)]
        [''v'' \<mapsto> JObject [], ''w'' \<mapsto> JObject []]
        [''v'' \<mapsto> ''{dimension:128}'', ''w'' \<mapsto> ''{metric_type:IP,index_type:FLAT}''] JNull)) =
   [(\<lparr>collection_id' = ''c'', dimension' = 128, index_file_size' = 1024,
      engine_type' = 1, metric_type' = 2\<rparr>,
     \<lparr>fields_schema' =
        [\<lparr>FieldSchema.collection_id' = ''c'', field_name' = ''v'', field_type' = 100,
          FieldSchema.field_params' = ''{dimension:128}'',
          index_name' = [], index_param' = ''{}''\<rparr>,
         \<lparr>FieldSchema.collection_id' = ''c'', field_name' = ''w'', field_type' = 101,
          FieldSchema.field_params' = ''{metric_type:IP,index_type:FLAT}'',
          index_name' = [], index_param' = ''{}''\<rparr>]\<rparr>)]"
  by (simp add: is_vector_def example_simps)

text \<open>
  Claim C7 as amended: whenever the engine is called and the type map has a vector-typed
  field, the parameter document of the vector field visited last alone determines the
  metric code and the engine code (the table's code for its string, or the default when
  the key is absent), and it determines the dimension when it has a \<^verbatim>\<open>dimension\<close> key.
  When it has none, the dimension assigned for an earlier vector field is kept: in every
  case the dimension is the converted \<^verbatim>\<open>dimension\<close> value of the last vector field, in the
  order of the loop, whose document has the key, and 0 when no vector field's document
  has it.
\<close>

theorem C7_last_vector:
  assumes "snd (OnExecute e req) = [(collection_info, fields_schema)]"
    and "last_vector (field_types' req) = Some field_type"
  shows "(\<exists>vector_param.
           last_vector_param e req = Some vector_param \<and>
           (if contains vector_param ''metric_type''
            then \<exists>s. index_json vector_param ''metric_type'' = Inr (JString s) \<and>
                     s_map_metric_type e s = Some (metric_type' collection_info)
            else metric_type' collection_info = metric_type' (CollectionSchema_default e)) \<and>
           (if contains vector_param ''index_type''
            then \<exists>s. index_json vector_param ''index_type'' = Inr (JString s) \<and>
                     s_map_engine_type e s = Some (engine_type' collection_info)
            else engine_type' collection_info = engine_type' (CollectionSchema_default e)) \<and>
           (contains vector_param ''dimension'' \<longrightarrow>
              (\<exists>v. index_json vector_param ''dimension'' = Inr v \<and>
                   get_uint16_t (double_to_uint16_t e) v = Inr (dimension' collection_info))) \<and>
           (\<not> contains vector_param ''dimension'' \<longrightarrow>
              last_dimension_field e req (field_types' req) \<noteq> Some field_type)) \<and>
         (case last_dimension_field e req (field_types' req) of
            None \<Rightarrow> dimension' collection_info = 0
          | Some dimension_field \<Rightarrow>
              \<exists>field_param parsed v.
                field_params' req (fst dimension_field) = Some field_param \<and>
                json_parse e field_param = Some parsed \<and>
                index_json parsed ''dimension'' = Inr v \<and>
                get_uint16_t (double_to_uint16_t e) v = Inr (dimension' collection_info))"
proof -
  from OnExecute_engine_call [OF assms(1)]
  have s: "step2 e req = Inr (collection_info, fields_schema)" by simp
  from step2_last_vector [OF s assms(2)] obtain vector_param where
    l: "last_vector_param e req = Some vector_param" and
    r: "(if contains vector_param ''metric_type''
            then \<exists>s. index_json vector_param ''metric_type'' = Inr (JString s) \<and>
                     s_map_metric_type e s = Some (metric_type' collection_info)
            else metric_type' collection_info = metric_type' (CollectionSchema_default e)) \<and>
           (if contains vector_param ''index_type''
            then \<exists>s. index_json vector_param ''index_type'' = Inr (JString s) \<and>
                     s_map_engine_type e s = Some (engine_type' collection_info)
            else engine_type' collection_info = engine_type' (CollectionSchema_default e)) \<and>
           (contains vector_param ''dimension'' \<longrightarrow>
              (\<exists>v. index_json vector_param ''dimension'' = Inr v \<and>
                   get_uint16_t (double_to_uint16_t e) v = Inr (dimension' collection_info)))"
    by blast
  have n: "last_dimension_field e req (field_types' req) \<noteq> Some field_type"
    if no: "\<not> contains vector_param ''dimension''"
  proof
    assume eq: "last_dimension_field e req (field_types' req) = Some field_type"
    have "carries_dimension e req ft" if "last_dimension_field e req fts = Some ft" for fts ft
      using that by (induction fts) (auto split: option.splits if_splits)
    from this [OF eq] l assms(2) no show False
      by (auto simp: carries_dimension_def last_vector_param_def split: option.splits)
  qed
  from l r n step2_dimension [OF s] show ?thesis by blast
qed

theorem C7_last_vector_witness:
  "snd (OnExecute example_env
     (Create ''c'' [(''v'', FLOAT_VECTOR), (''w'', BINARY_VECTOR)]
        [''v'' \<mapsto> JObject [], ''w'' \<mapsto> JObject []]
        [''v'' \<mapsto> ''{dimension:64}'',
         ''w'' \<mapsto> ''{dimension:128,metric_type:L2,index_type:IVF_FLAT}''] JNull)) =
   [(\<lparr>collection_id' = ''c'', dimension' = 128, index_file_size' = 1024,
      engine_type' = 2, metric_type' = 1\<rparr>,
     \<lparr>fields_schema' =
        [\<lparr>FieldSchema.collection_id' = ''c'', field_name' = ''v'', field_type' = 100,
          FieldSchema.field_params' = ''{dimension:64}'',
          index_name' = [], index_param' = ''{}''\<rparr>,
         \<lparr>FieldSchema.collection_id' = ''c'', field_name' = ''w'', field_type' = 101,
          FieldSchema.field_params' = ''{dimension:128,metric_type:L2,index_type:IVF_FLAT}'',
          index_name' = [], index_param' = ''{}''\<rparr>]\<rparr>)] \<and>
   last_vector [(''v'', FLOAT_VECTOR), (''w'', BINARY_VECTOR)] = Some (''w'', BINARY_VECTOR) \<and>
   last_vector_param example_env
     (Create ''c'' [(''v'', FLOAT_VECTOR), (''w'', BINARY_VECTOR)]
        [''v'' \<mapsto> JObject [], ''w'' \<mapsto> JObject []]
        [''v'' \<mapsto> ''{dimension:64}'',
         ''w'' \<mapsto> ''{dimension:128,metric_type:L2,index_type:IVF_FLAT}''] JNull) =
     Some (JObject [(''dimension'', JUInt 128), (''index_type'', JString ''IVF_FLAT''),
                    (''metric_type'', JString ''L2'')]) \<and>
   last_dimension_field example_env
     (Create ''c'' [(''v'', FLOAT_VECTOR), (''w'', BINARY_VECTOR)]
        [''v'' \<mapsto> JObject [], ''w'' \<mapsto> JObject []]
        [''v'' \<mapsto> ''{dimension:64}'',
         ''w'' \<mapsto> ''{dimension:128,metric_type:L2,index_type:IVF_FLAT}''] JNull)
     [(''v'', FLOAT_VECTOR), (''w'', BINARY_VECTOR)] = Some (''w'', BINARY_VECTOR) \<and>
   s_map_metric_type example_env ''L2'' = Some 1 \<and>
   s_map_engine_type example_env ''IVF_FLAT'' = Some 2 \<and>
   get_uint16_t (double_to_uint16_t example_env) (JUInt 128) = Inr 128 \<and>
   snd (OnExecute example_env
     (Create ''c'' [(''v'', FLOAT_VECTOR), (''w'', BINARY_VECTOR)]
        [''v'' \<mapsto> JObject [], ''w'' \<mapsto> JObject []]
        [''v'' \<mapsto> ''{dimension:64}'', ''w'' \<mapsto> ''{metric_type:IP,index_type:FLAT}''] JNull)) =
   [(\<lparr>collection_id' = ''c'', dimension' = 64, index_file_size' = 1024,
      engine_type' = 1, metric_type' = 2\<rparr>,
     \<lparr>fields_schema' =
        [\<lparr>FieldSchema.collection_id' = ''c'', field_name' = ''v'', field_type' = 100,
          FieldSchema.field_params' = ''{dimension:64}'',
          index_name' = [], index_param' = ''{}''\<rparr>,
         \<lparr>FieldSchema.collection_id' = ''c'', field_name' = ''w'', field_type' = 101,
          FieldSchema.field_params' = ''{metric_type:IP,index_type:FLAT}'',
          index_name' = [], index_param' = ''{}''\<rparr>]\<rparr>)] \<and>
   last_vector_param example_env
     (Create ''c'' [(''v'', FLOAT_VECTOR), (''w'', BINARY_VECTOR)]
        [''v'' \<mapsto> JObject [], ''w'' \<mapsto> JObject []]
        [''v'' \<mapsto> ''{dimension:64}'', ''w'' \<mapsto> ''{metric_type:IP,index_type:FLAT}''] JNull) =
     Some (JObject [(''index_type'', JString ''FLAT''), (''metric_type'', JString ''IP'')]) \<and>
   \<not> contains (JObject [(''index_type'', JString ''FLAT''), (''metric_type'', JString ''IP'')])
       ''dimension'' \<and>
   last_dimension_field example_env
     (Create ''c'' [(''v'', FLOAT_VECTOR), (''w'', BINARY_VECTOR)]
        [''v'' \<mapsto> JObject [], ''w'' \<mapsto> JObject []]
        [''v'' \<mapsto> ''{dimension:64}'', ''w'' \<mapsto> ''{metric_type:IP,index_type:FLAT}''] JNull)
     [(''v'', FLOAT_VECTOR), (''w'', BINARY_VECTOR)] = Some (''v'', FLOAT_VECTOR) \<and>
   json_parse example_env ''{dimension:64}'' = Some (JObject [(''dimension'', JUInt 64)]) \<and>
   get_uint16_t (double_to_uint16_t example_env) (JUInt 64) = Inr 64"
proof -
  let ?a = "Create ''c'' [(''v'', FLOAT_VECTOR), (''w'', BINARY_VECTOR)]
        [''v'' \<mapsto> JObject [], ''w'' \<mapsto> JObject []]
        [''v'' \<mapsto> ''{dimension:64}'',
         ''w'' \<mapsto> ''{dimension:128,metric_type:L2,index_type:IVF_FLAT}''] JNull"
  let ?b = "Create ''c'' [(''v'', FLOAT_VECTOR), (''w'', BINARY_VECTOR)]
        [''v'' \<mapsto> JObject [], ''w'' \<mapsto> JObject []]
        [''v'' \<mapsto> ''{dimension:64}'', ''w'' \<mapsto> ''{metric_type:IP,index_type:FLAT}''] JNull"
  let ?v = "\<lparr>FieldSchema.collection_id' = ''c'', field_name' = ''v'', field_type' = 100,
          FieldSchema.field_params' = ''{dimension:64}'',
          index_name' = [], index_param' = ''{}''\<rparr>"
  let ?cia = "\<lparr>collection_id' = ''c'', dimension' = 128, index_file_size' = 1024,
      engine_type' = 2, metric_type' = (1 :: 32 word)\<rparr>"
  let ?fsa = "\<lparr>fields_schema' =
        [?v,
         \<lparr>FieldSchema.collection_id' = ''c'', field_name' = ''w'', field_type' = 101,
          FieldSchema.field_params' = ''{dimension:128,metric_type:L2,index_type:IVF_FLAT}'',
          index_name' = [], index_param' = ''{}''\<rparr>]\<rparr>"
  let ?cib = "\<lparr>collection_id' = ''c'', dimension' = 64, index_file_size' = 1024,
      engine_type' = 1, metric_type' = (2 :: 32 word)\<rparr>"
  let ?fsb = "\<lparr>fields_schema' =
        [?v,
         \<lparr>FieldSchema.collection_id' = ''c'', field_name' = ''w'', field_type' = 101,
          FieldSchema.field_params' = ''{metric_type:IP,index_type:FLAT}'',
          index_name' = [], index_param' = ''{}''\<rparr>]\<rparr>"
  let ?docb = "JObject [(''index_type'', JString ''FLAT''), (''metric_type'', JString ''IP'')]"
  have types: "field_types' ?a = [(''v'', FLOAT_VECTOR), (''w'', BINARY_VECTOR)]"
    "field_types' ?b = [(''v'', FLOAT_VECTOR), (''w'', BINARY_VECTOR)]"
    by (simp_all add: Create_def new_CreateHybridCollectionRequest_def)
  have calla: "snd (OnExecute example_env ?a) = [(?cia, ?fsa)]"
    by (simp add: example_simps)
  have callb: "snd (OnExecute example_env ?b) = [(?cib, ?fsb)]"
    by (simp add: example_simps)
  have lva: "last_vector (field_types' ?a) = Some (''w'', BINARY_VECTOR)"
    and lvb: "last_vector (field_types' ?b) = Some (''w'', BINARY_VECTOR)"
    unfolding types by (simp_all add: is_vector_def)
  have lpa: "last_vector_param example_env ?a =
      Some (JObject [(''dimension'', JUInt 128), (''index_type'', JString ''IVF_FLAT''),
                    (''metric_type'', JString ''L2'')])"
    by (simp add: last_vector_param_def is_vector_def example_simps)
  have lpb: "last_vector_param example_env ?b = Some ?docb"
    by (simp add: last_vector_param_def is_vector_def example_simps)
  have lda: "last_dimension_field example_env ?a (field_types' ?a) = Some (''w'', BINARY_VECTOR)"
    unfolding types
    by (simp add: carries_dimension_def is_vector_def example_simps)
  have ldb: "last_dimension_field example_env ?b (field_types' ?b) = Some (''v'', FLOAT_VECTOR)"
    unfolding types
    by (simp add: carries_dimension_def is_vector_def example_simps)
  have rest: "s_map_metric_type example_env ''L2'' = Some 1"
    "s_map_engine_type example_env ''IVF_FLAT'' = Some 2"
    "json_parse example_env ''{dimension:64}'' = Some (JObject [(''dimension'', JUInt 64)])"
    by (simp_all add: example_env_def example_parse_def)
  from C7_last_vector [OF calla lva] C7_last_vector [OF callb lvb]
    calla callb lva lpa lpb lda ldb rest
  show ?thesis unfolding types by simp
qed

subsection \<open>C8: an invalid collection name\<close>

text \<open>
  Claim C8: for every request whose collection name fails the name validator, the call
  returns the validator's error at once and no later stage runs; the storage engine's
  create operation is never invoked. The fault-injection point between the validator and
  the test of its status is taken to be off, as it is in a build without fault injection.
\<close>

theorem C8_invalid_name_short_circuits:
  assumes "\<not> ok (ValidateCollectionName e (collection_name' req))"
    and "\<not> fiu_fail e ''CreateHybridCollectionRequest.OnExecute.invalid_collection_name''"
  shows "OnExecute e req = (ValidateCollectionName e (collection_name' req), [])"
  using assms unfolding OnExecute_def Let_def by simp

theorem C8_invalid_name_short_circuits_witness:
  "\<not> ok (ValidateCollectionName example_env
       (collection_name' (Create [] [(''a'', OTHER_TYPE 4)] [''a'' \<mapsto> JObject []]
          [''a'' \<mapsto> ''{}''] JNull))) \<and>
   \<not> fiu_fail example_env ''CreateHybridCollectionRequest.OnExecute.invalid_collection_name'' \<and>
   OnExecute example_env
     (Create [] [(''a'', OTHER_TYPE 4)] [''a'' \<mapsto> JObject []] [''a'' \<mapsto> ''{}''] JNull) =
   (Status SERVER_INVALID_COLLECTION_NAME ''empty name'', [])"
proof -
  let ?req = "Create [] [(''a'', OTHER_TYPE 4)] [''a'' \<mapsto> JObject []] [''a'' \<mapsto> ''{}''] JNull"
  have 1: "\<not> ok (ValidateCollectionName example_env (collection_name' ?req))"
    by (simp add: example_simps)
  have 2: "\<not> fiu_fail example_env
      ''CreateHybridCollectionRequest.OnExecute.invalid_collection_name''"
    by (simp add: example_env_def)
  from C8_invalid_name_short_circuits [OF 1 2] 1 2 show ?thesis
    by (simp add: example_simps)
qed

subsection \<open>C9: the collection id of every field schema\<close>

text \<open>
  Claim C9: in every successfully assembled FieldsSchema, every FieldSchema has the
  request's collection name as its \<^verbatim>\<open>collection_id\<close>, whatever the field's data type.
\<close>

theorem C9_collection_id_invariant:
  assumes "assemble e req = Inr (fields_schema, dimension, vector_param)"
  shows "\<forall>schema \<in> set (fields_schema' fields_schema).
           FieldSchema.collection_id' schema = collection_name' req"
  using loop_built [OF assms [unfolded assemble_def]] by auto

theorem C9_collection_id_invariant_witness:
  "assemble example_env
     (Create ''c'' [(''v'', FLOAT_VECTOR), (''a'', OTHER_TYPE 4)]
        [''v'' \<mapsto> JObject [(''name'', JString ''idx'')], ''a'' \<mapsto> JObject []]
        [''v'' \<mapsto> ''{dimension:64}'', ''a'' \<mapsto> ''{}''] JNull) =
   Inr (\<lparr>fields_schema' =
          [\<lparr>FieldSchema.collection_id' = ''c'', field_name' = ''v'', field_type' = 100,
            FieldSchema.field_params' = ''{dimension:64}'', index_name' = ''idx'',
            index_param' = ''{name:idx}''\<rparr>,
           \<lparr>FieldSchema.collection_id' = ''c'', field_name' = ''a'', field_type' = 4,
            FieldSchema.field_params' = ''{}'', index_name' = [], index_param' = ''{}''\<rparr>]\<rparr>,
        64, JObject [(''dimension'', JUInt 64)]) \<and>
   list_all (\<lambda>schema. FieldSchema.collection_id' schema = ''c'')
     [\<lparr>FieldSchema.collection_id' = ''c'', field_name' = ''v'', field_type' = 100,
       FieldSchema.field_params' = ''{dimension:64}'', index_name' = ''idx'',
       index_param' = ''{name:idx}''\<rparr>,
      \<lparr>FieldSchema.collection_id' = ''c'', field_name' = ''a'', field_type' = 4,
       FieldSchema.field_params' = ''{}'', index_name' = [], index_param' = ''{}''\<rparr>]"
proof -
  let ?req = "Create ''c'' [(''v'', FLOAT_VECTOR), (''a'', OTHER_TYPE 4)]
        [''v'' \<mapsto> JObject [(''name'', JString ''idx'')], ''a'' \<mapsto> JObject []]
        [''v'' \<mapsto> ''{dimension:64}'', ''a'' \<mapsto> ''{}''] JNull"
  let ?fs = "\<lparr>fields_schema' =
          [\<lparr>FieldSchema.collection_id' = ''c'', field_name' = ''v'', field_type' = 100,
            FieldSchema.field_params' = ''{dimension:64}'', index_name' = ''idx'',
            index_param' = ''{name:idx}''\<rparr>,
           \<lparr>FieldSchema.collection_id' = ''c'', field_name' = ''a'', field_type' = 4,
            FieldSchema.field_params' = ''{}'', index_name' = [], index_param' = ''{}''\<rparr>]\<rparr>"
  have run: "assemble example_env ?req = Inr (?fs, 64, JObject [(''dimension'', JUInt 64)])"
    by (simp add: example_simps)
  from C9_collection_id_invariant [OF run] run show ?thesis
    by (simp add: Create_def new_CreateHybridCollectionRequest_def)
qed

subsection \<open>C10: a vector field without \<^verbatim>\<open>dimension\<close>\<close>

text \<open>
  Claim C10: an iteration for a vector-typed field whose parameter document parses and
  has no \<^verbatim>\<open>dimension\<close> key leaves the running dimension as it was; so when no vector
  field's document has the key, the CollectionSchema the engine receives has dimension 0
  even though there are vector fields, while the metric and engine codes are still set
  from the document of the vector field visited last when it has those keys.
\<close>

theorem C10_dimension_left_unchanged:
  "(loop_body e req field_type (fields_schema, dimension, vector_param) =
      Inr (fields_schema1, dimension1, vector_param1) \<and>
    is_vector (snd field_type) \<and>
    field_params' req (fst field_type) = Some field_param \<and>
    json_parse e field_param = Some parsed \<and>
    \<not> contains parsed ''dimension'' \<longrightarrow>
      dimension1 = dimension \<and> vector_param1 = parsed) \<and>
   (snd (OnExecute e req) = [(collection_info, sent)] \<and>
    (\<forall>ft \<in> set (field_types' req). is_vector (snd ft) \<longrightarrow>
       (\<forall>fp doc. field_params' req (fst ft) = Some fp \<longrightarrow> json_parse e fp = Some doc \<longrightarrow>
          \<not> contains doc ''dimension'')) \<longrightarrow>
      dimension' collection_info = 0 \<and>
      (\<forall>last_doc. last_vector_param e req = Some last_doc \<longrightarrow>
         (contains last_doc ''metric_type'' \<longrightarrow>
            (\<exists>s. index_json last_doc ''metric_type'' = Inr (JString s) \<and>
                 s_map_metric_type e s = Some (metric_type' collection_info))) \<and>
         (contains last_doc ''index_type'' \<longrightarrow>
            (\<exists>s. index_json last_doc ''index_type'' = Inr (JString s) \<and>
                 s_map_engine_type e s = Some (engine_type' collection_info)))))"
proof (intro conjI impI allI)
  assume h: "loop_body e req field_type (fields_schema, dimension, vector_param) =
      Inr (fields_schema1, dimension1, vector_param1) \<and>
    is_vector (snd field_type) \<and>
    field_params' req (fst field_type) = Some field_param \<and>
    json_parse e field_param = Some parsed \<and>
    \<not> contains parsed ''dimension''"
  then have body: "loop_body e req field_type (fields_schema, dimension, vector_param) =
      Inr (fields_schema1, dimension1, vector_param1)" and vec: "is_vector (snd field_type)"
    by simp_all
  from loop_body_vector [OF body vec] h
  have "dimension1 = dimension \<and> vector_param1 = parsed" by (auto split: if_splits)
  then show "dimension1 = dimension" "vector_param1 = parsed" by simp_all
next
  assume h: "snd (OnExecute e req) = [(collection_info, sent)] \<and>
    (\<forall>ft \<in> set (field_types' req). is_vector (snd ft) \<longrightarrow>
       (\<forall>fp doc. field_params' req (fst ft) = Some fp \<longrightarrow> json_parse e fp = Some doc \<longrightarrow>
          \<not> contains doc ''dimension''))"
  from h OnExecute_engine_call [of e req collection_info sent "[]"]
  have s: "step2 e req = Inr (collection_info, sent)" by simp
  then obtain d vp where
    a: "assemble e req = Inr (sent, d, vp)" and
    c: "collection_info_of e req d vp = Inr collection_info"
    unfolding step2_Inr_iff by blast
  from h loop_no_dimension [OF a [unfolded assemble_def]] have "d = 0" by blast
  with collection_info_of_Inr [OF c] show "dimension' collection_info = 0" by simp
  fix last_doc
  assume l: "last_vector_param e req = Some last_doc"
  then obtain ft where lv: "last_vector (field_types' req) = Some ft"
    unfolding last_vector_param_def by (auto split: option.splits)
  from step2_last_vector [OF s lv] l
  have r: "(if contains last_doc ''metric_type''
            then \<exists>s. index_json last_doc ''metric_type'' = Inr (JString s) \<and>
                     s_map_metric_type e s = Some (metric_type' collection_info)
            else metric_type' collection_info = metric_type' (CollectionSchema_default e))"
       "(if contains last_doc ''index_type''
            then \<exists>s. index_json last_doc ''index_type'' = Inr (JString s) \<and>
                     s_map_engine_type e s = Some (engine_type' collection_info)
            else engine_type' collection_info = engine_type' (CollectionSchema_default e))"
    by auto
  {
    assume "contains last_doc ''metric_type''"
    with r(1) show "\<exists>s. index_json last_doc ''metric_type'' = Inr (JString s) \<and>
                 s_map_metric_type e s = Some (metric_type' collection_info)" by simp
  }
  {
    assume "contains last_doc ''index_type''"
    with r(2) show "\<exists>s. index_json last_doc ''index_type'' = Inr (JString s) \<and>
                 s_map_engine_type e s = Some (engine_type' collection_info)" by simp
  }
qed

theorem C10_dimension_left_unchanged_witness:
  "loop_body example_env
     (Create ''c'' [(''v'', FLOAT_VECTOR), (''w'', BINARY_VECTOR)]
        [''v'' \<mapsto> JObject [], ''w'' \<mapsto> JObject []]
        [''v'' \<mapsto> ''{}'', ''w'' \<mapsto> ''{metric_type:IP,index_type:FLAT}''] JNull)
     (''w'', BINARY_VECTOR) (\<lparr>fields_schema' = []\<rparr>, 7, JNull) =
   Inr (\<lparr>fields_schema' =
          [\<lparr>FieldSchema.collection_id' = ''c'', field_name' = ''w'', field_type' = 101,
            FieldSchema.field_params' = ''{metric_type:IP,index_type:FLAT}'',
            index_name' = [], index_param' = ''{}''\<rparr>]\<rparr>,
        7, JObject [(''index_type'', JString ''FLAT''), (''metric_type'', JString ''IP'')]) \<and>
   is_vector (snd (''w'', BINARY_VECTOR)) \<and>
   \<not> contains (JObject [(''index_type'', JString ''FLAT''), (''metric_type'', JString ''IP'')])
       ''dimension'' \<and>
   snd (OnExecute example_env
     (Create ''c'' [(''v'', FLOAT_VECTOR), (''w'', BINARY_VECTOR)]
        [''v'' \<mapsto> JObject [], ''w'' \<mapsto> JObject []]
        [''v'' \<mapsto> ''{}'', ''w'' \<mapsto> ''{metric_type:IP,index_type:FLAT}''] JNull)) =
   [(\<lparr>collection_id' = ''c'', dimension' = 0, index_file_size' = 1024,
      engine_type' = 1, metric_type' = 2\<rparr>,
     \<lparr>fields_schema' =
        [\<lparr>FieldSchema.collection_id' = ''c'', field_name' = ''v'', field_type' = 100,
          FieldSchema.field_params' = ''{}'', index_name' = [], index_param' = ''{}''\<rparr>,
         \<lparr>FieldSchema.collection_id' = ''c'', field_name' = ''w'', field_type' = 101,
          FieldSchema.field_params' = ''{metric_type:IP,index_type:FLAT}'',
          index_name' = [], index_param' = ''{}''\<rparr>]\<rparr>)] \<and>
   last_vector_param example_env
     (Create ''c'' [(''v'', FLOAT_VECTOR), (''w'', BINARY_VECTOR)]
        [''v'' \<mapsto> JObject [], ''w'' \<mapsto> JObject []]
        [''v'' \<mapsto> ''{}'', ''w'' \<mapsto> ''{metric_type:IP,index_type:FLAT}''] JNull) =
     Some (JObject [(''index_type'', JString ''FLAT''), (''metric_type'', JString ''IP'')]) \<and>
   s_map_metric_type example_env ''IP'' = Some 2 \<and>
   s_map_engine_type example_env ''FLAT'' = Some 1"
proof -
  let ?req = "Create ''c'' [(''v'', FLOAT_VECTOR), (''w'', BINARY_VECTOR)]
        [''v'' \<mapsto> JObject [], ''w'' \<mapsto> JObject []]
        [''v'' \<mapsto> ''{}'', ''w'' \<mapsto> ''{metric_type:IP,index_type:FLAT}''] JNull"
  let ?doc = "JObject [(''index_type'', JString ''FLAT''), (''metric_type'', JString ''IP'')]"
  let ?w = "\<lparr>FieldSchema.collection_id' = ''c'', field_name' = ''w'', field_type' = 101,
          FieldSchema.field_params' = ''{metric_type:IP,index_type:FLAT}'',
          index_name' = [], index_param' = ''{}''\<rparr>"
  let ?v = "\<lparr>FieldSchema.collection_id' = ''c'', field_name' = ''v'', field_type' = 100,
          FieldSchema.field_params' = ''{}'', index_name' = [], index_param' = ''{}''\<rparr>"
  let ?ci = "\<lparr>collection_id' = ''c'', dimension' = 0, index_file_size' = 1024,
      engine_type' = 1, metric_type' = (2 :: 32 word)\<rparr>"
  have req: "field_types' ?req = [(''v'', FLOAT_VECTOR), (''w'', BINARY_VECTOR)]"
    "field_params' ?req = [''v'' \<mapsto> ''{}'', ''w'' \<mapsto> ''{metric_type:IP,index_type:FLAT}'']"
    by (simp_all add: Create_def new_CreateHybridCollectionRequest_def)
  have body: "loop_body example_env ?req (''w'', BINARY_VECTOR)
      (\<lparr>fields_schema' = []\<rparr>, 7, JNull) = Inr (\<lparr>fields_schema' = [?w]\<rparr>, 7, ?doc)"
    by (simp add: example_simps)
  have vec: "is_vector (snd (''w'', BINARY_VECTOR))"
    by (simp add: is_vector_def)
  have fp: "field_params' ?req (fst (''w'', BINARY_VECTOR)) =
      Some ''{metric_type:IP,index_type:FLAT}''"
    unfolding req by simp
  have doc: "json_parse example_env ''{metric_type:IP,index_type:FLAT}'' = Some ?doc"
    by (simp add: example_env_def example_parse_def)
  have nodim: "\<not> contains ?doc ''dimension''" by simp
  have call: "snd (OnExecute example_env ?req) = [(?ci, \<lparr>fields_schema' = [?v, ?w]\<rparr>)]"
    by (simp add: example_simps)
  have all: "\<forall>ft \<in> set (field_types' ?req). is_vector (snd ft) \<longrightarrow>
       (\<forall>fp doc. field_params' ?req (fst ft) = Some fp \<longrightarrow>
          json_parse example_env fp = Some doc \<longrightarrow> \<not> contains doc ''dimension'')"
    unfolding req by (auto simp: example_env_def example_parse_def)
  have lp: "last_vector_param example_env ?req = Some ?doc"
    by (simp add: last_vector_param_def is_vector_def example_simps)
  note inst = C10_dimension_left_unchanged [of example_env ?req "(''w'', BINARY_VECTOR)"
      "\<lparr>fields_schema' = []\<rparr>" 7 JNull "\<lparr>fields_schema' = [?w]\<rparr>" 7 ?doc
      "''{metric_type:IP,index_type:FLAT}''" ?doc ?ci "\<lparr>fields_schema' = [?v, ?w]\<rparr>"]
  from inst body vec fp doc nodim have step: "(7 :: 16 word) = 7 \<and> ?doc = ?doc" by blast
  from inst call all have "dimension' ?ci = 0 \<and>
      (\<forall>last_doc. last_vector_param example_env ?req = Some last_doc \<longrightarrow>
         (contains last_doc ''metric_type'' \<longrightarrow>
            (\<exists>s. index_json last_doc ''metric_type'' = Inr (JString s) \<and>
                 s_map_metric_type example_env s = Some (metric_type' ?ci))) \<and>
         (contains last_doc ''index_type'' \<longrightarrow>
            (\<exists>s. index_json last_doc ''index_type'' = Inr (JString s) \<and>
                 s_map_engine_type example_env s = Some (engine_type' ?ci))))"
    by blast
  with lp have codes: "s_map_metric_type example_env ''IP'' = Some 2 \<and>
      s_map_engine_type example_env ''FLAT'' = Some 1"
    by auto
  from body vec nodim call lp codes step show ?thesis
    by (simp add: Create_def new_CreateHybridCollectionRequest_def)
qed

end
